theory Spec2Isabelle
  imports Main "HOL-Library.Word"
begin

unbundle bit_operations_syntax

section \<open>Go values\<close>

text \<open>
  A Go \<^verbatim>\<open>string\<close> is a sequence of bytes; so is an Isabelle \<^typ>\<open>string\<close>, whose
  characters are 8-bit. \<^verbatim>\<open>len(s)\<close> is \<^term>\<open>length s\<close> and \<^verbatim>\<open>[]byte(s)\<close> is
  \<open>bytes_of s\<close>.
\<close>

type_synonym byte = "8 word"
type_synonym u32 = "32 word"

definition bytes_of :: "string \<Rightarrow> byte list" where
  "bytes_of s = map of_char s"

definition string_of :: "byte list \<Rightarrow> string" where
  "string_of bs = map (\<lambda>b. char_of (unat b)) bs"

text \<open>
  \<^verbatim>\<open>time.Time\<close> is an instant, counted here in nanoseconds since the Unix epoch;
  \<^verbatim>\<open>t.After(u)\<close> is \<open>u < t\<close>, \<^verbatim>\<open>t.Add(d)\<close> is \<open>t + d\<close>, \<^verbatim>\<open>t.Unix()\<close> is the
  number of whole seconds \<open>t div Second\<close> and \<^verbatim>\<open>time.Unix(s, 0)\<close> is \<open>s * Second\<close>.
  The zero \<^verbatim>\<open>time.Time\<close> is 1 January of year 1.
\<close>

type_synonym Time = int

definition Second :: int where "Second = 1000000000"
definition Minute :: int where "Minute = 60 * Second"
definition Hour :: int where "Hour = 60 * Minute"

definition Unix :: "Time \<Rightarrow> int" where
  "Unix t = t div Second"

definition time_Unix :: "int \<Rightarrow> Time" where
  "time_Unix sec = sec * Second"

definition zeroTime :: Time where
  "zeroTime = time_Unix (- 62135596800)"

text \<open>
  A Go \<^verbatim>\<open>error\<close> is represented by its message (\<^verbatim>\<open>err.Error()\<close>),
  \<^verbatim>\<open>fmt.Errorf("...: %w", err)\<close> by concatenation, a pair \<^verbatim>\<open>(value, error)\<close> by a sum
  with the error on the left, and a lone \<^verbatim>\<open>error\<close> result by an option (\<open>None\<close> is
  \<^verbatim>\<open>nil\<close>). A call that panics returns \<open>Panic\<close>.
\<close>

datatype 'a go = Return 'a | Panic string

text \<open>\<^verbatim>\<open>ctx.Err()\<close> of the request's context: \<open>None\<close> while the context is live.\<close>

datatype ctx_error = Canceled | DeadlineExceeded

fun ctx_message :: "ctx_error \<Rightarrow> string" where
  "ctx_message Canceled = ''context canceled''"
| "ctx_message DeadlineExceeded = ''context deadline exceeded''"

type_synonym Context = "ctx_error option"

definition succeeded :: "string + 'a \<Rightarrow> bool" where
  "succeeded r = (case r of Inl err \<Rightarrow> False | Inr v \<Rightarrow> True)"

section \<open>Library functions\<close>

subsection \<open>crypto/sha256 (FIPS 180-4)\<close>

text \<open>
  \<^verbatim>\<open>sha256.Sum256\<close> belongs to the Go standard library. It is modelled by the
  algorithm of the standard it implements, executable, so that the PKCE check can be
  run on concrete verifiers.
\<close>

text \<open>
  The round constants (the first 32 bits of the fractional parts of the cube roots of
  the first 64 primes) and the initial hash value (those of the square roots of the
  first 8 primes), written in decimal.
\<close>

definition K256 :: "u32 list" where
  "K256 = [
     1116352408, 1899447441, 3049323471, 3921009573, 961987163, 1508970993,
     2453635748, 2870763221, 3624381080, 310598401, 607225278, 1426881987,
     1925078388, 2162078206, 2614888103, 3248222580, 3835390401, 4022224774,
     264347078, 604807628, 770255983, 1249150122, 1555081692, 1996064986,
     2554220882, 2821834349, 2952996808, 3210313671, 3336571891, 3584528711,
     113926993, 338241895, 666307205, 773529912, 1294757372, 1396182291,
     1695183700, 1986661051, 2177026350, 2456956037, 2730485921, 2820302411,
     3259730800, 3345764771, 3516065817, 3600352804, 4094571909, 275423344,
     430227734, 506948616, 659060556, 883997877, 958139571, 1322822218,
     1537002063, 1747873779, 1955562222, 2024104815, 2227730452, 2361852424,
     2428436474, 2756734187, 3204031479, 3329325298]"

definition init256 :: "u32 list" where
  "init256 = [
     1779033703, 3144134277, 1013904242, 2773480762, 1359893119, 2600822924,
     528734635, 1541459225]"

definition rotr :: "nat \<Rightarrow> u32 \<Rightarrow> u32" where
  "rotr n x = drop_bit n x OR push_bit (32 - n) x"

definition be32 :: "byte list \<Rightarrow> u32" where
  "be32 bs = foldl (\<lambda>acc b. push_bit 8 acc OR ucast b) 0 (take 4 bs)"

definition be_bytes32 :: "u32 \<Rightarrow> byte list" where
  "be_bytes32 w = map (\<lambda>i. ucast (drop_bit (8 * (3 - i)) w)) [0..<4]"

fun chunks :: "nat \<Rightarrow> 'a list \<Rightarrow> 'a list list" where
  "chunks n [] = []"
| "chunks n (x # xs) =
     (if n = 0 then [x # xs] else take n (x # xs) # chunks n (drop n (x # xs)))"

definition pad256 :: "byte list \<Rightarrow> byte list" where
  "pad256 m =
     (let l = length m;
          z = (119 - l mod 64) mod 64;
          bits = (word_of_nat (8 * l) :: 64 word)
      in m @ [0x80] @ replicate z 0 @ map (\<lambda>i. ucast (drop_bit (8 * (7 - i)) bits)) [0..<8])"

fun extend256 :: "nat \<Rightarrow> u32 list \<Rightarrow> u32 list" where
  "extend256 0 w = w"
| "extend256 (Suc n) w =
    (let i = length w; w15 = w ! (i - 15); w2 = w ! (i - 2);
         s0 = rotr 7 w15 XOR rotr 18 w15 XOR drop_bit 3 w15;
         s1 = rotr 17 w2 XOR rotr 19 w2 XOR drop_bit 10 w2
     in extend256 n (w @ [w ! (i - 16) + s0 + w ! (i - 7) + s1]))"

fun round256 :: "u32 list \<Rightarrow> u32 \<times> u32 \<Rightarrow> u32 list" where
  "round256 [a, b, c, d, e, f, g, h] (k, w) =
    (let S1 = rotr 6 e XOR rotr 11 e XOR rotr 25 e;
         ch = (e AND f) XOR (NOT e AND g);
         t1 = h + S1 + ch + k + w;
         S0 = rotr 2 a XOR rotr 13 a XOR rotr 22 a;
         maj = (a AND b) XOR (a AND c) XOR (b AND c);
         t2 = S0 + maj
     in [t1 + t2, a, b, c, d + t1, e, f, g])"
| "round256 st _ = st"

definition block256 :: "u32 list \<Rightarrow> byte list \<Rightarrow> u32 list" where
  "block256 hs blk =
     (let w = extend256 48 (map be32 (chunks 4 blk))
      in map2 (+) hs (foldl round256 hs (zip K256 w)))"

definition sha256_Sum256 :: "byte list \<Rightarrow> byte list" where
  "sha256_Sum256 m = concat (map be_bytes32 (foldl block256 init256 (chunks 64 (pad256 m))))"

subsection \<open>encoding/base64 (RFC 4648)\<close>

definition encodeURL :: string where
  "encodeURL = ''ABCDEFGHIJKLMNOPQRSTUVWXYZabcdefghijklmnopqrstuvwxyz0123456789-_''"

definition b64sym :: "nat \<Rightarrow> char" where
  "b64sym n = encodeURL ! (n mod 64)"

text \<open>
  \<^verbatim>\<open>Encoding.EncodeToString\<close> for the URL alphabet; the flag says whether the
  encoding pads with \<^verbatim>\<open>=\<close> (\<^verbatim>\<open>base64.URLEncoding\<close>) or not
  (\<^verbatim>\<open>URLEncoding.WithPadding(NoPadding)\<close>).
\<close>

fun b64_EncodeToString :: "bool \<Rightarrow> byte list \<Rightarrow> string" where
  "b64_EncodeToString pad [] = []"
| "b64_EncodeToString pad [a] =
     [b64sym (unat a div 4), b64sym (unat a mod 4 * 16)] @ (if pad then ''=='' else [])"
| "b64_EncodeToString pad [a, b] =
     [b64sym (unat a div 4), b64sym (unat a mod 4 * 16 + unat b div 16),
      b64sym (unat b mod 16 * 4)] @ (if pad then ''='' else [])"
| "b64_EncodeToString pad (a # b # c # rest) =
     [b64sym (unat a div 4), b64sym (unat a mod 4 * 16 + unat b div 16),
      b64sym (unat b mod 16 * 4 + unat c div 64), b64sym (unat c mod 64)]
     @ b64_EncodeToString pad rest"

subsection \<open>encoding/hex\<close>

definition hexdigit :: "nat \<Rightarrow> char" where
  "hexdigit n = ''0123456789abcdef'' ! (n mod 16)"

definition hex_EncodeToString :: "byte list \<Rightarrow> string" where
  "hex_EncodeToString bs = concat (map (\<lambda>b. [hexdigit (unat b div 16), hexdigit (unat b mod 16)]) bs)"

subsection \<open>strings and strconv\<close>

function decimal :: "nat \<Rightarrow> string" where
  "decimal n =
     (if n < 10 then [''0123456789'' ! n]
      else decimal (n div 10) @ [''0123456789'' ! (n mod 10)])"
  by pat_completeness auto
termination
  by (relation "measure (\<lambda>n. n)") auto

definition strconv_Itoa :: "int \<Rightarrow> string" where
  "strconv_Itoa i = (if i < 0 then CHR ''-'' # decimal (nat (- i)) else decimal (nat i))"

fun strings_HasPrefix :: "string \<Rightarrow> string \<Rightarrow> bool" where
  "strings_HasPrefix s [] = True"
| "strings_HasPrefix [] (p # ps) = False"
| "strings_HasPrefix (c # s) (p # ps) = (c = p \<and> strings_HasPrefix s ps)"

fun strings_Contains :: "string \<Rightarrow> string \<Rightarrow> bool" where
  "strings_Contains [] substr = (substr = [])"
| "strings_Contains (c # s) substr =
     (strings_HasPrefix (c # s) substr \<or> strings_Contains s substr)"

subsection \<open>Slicing a converted string\<close>

text \<open>
  \<^verbatim>\<open>[]byte(s)[:n]\<close> as the source of a \<^verbatim>\<open>copy\<close>: the converted slice is only read, and
  the compiler of the module's Go version (1.24) lets it share the bytes of the
  string, so its capacity is its length \<^verbatim>\<open>len(s)\<close>. A slice expression panics when its
  upper bound exceeds the capacity, with a run-time error that names both.
\<close>

definition slice_upto :: "byte list \<Rightarrow> nat \<Rightarrow> byte list go" where
  "slice_upto b n =
     (if n \<le> length b then Return (take n b)
      else Panic (''runtime error: slice bounds out of range [:'' @ strconv_Itoa (int n)
                  @ ''] with capacity '' @ strconv_Itoa (int (length b))))"

text \<open>\<^verbatim>\<open>copy(dst, src)\<close>, returning the new contents of \<open>dst\<close>.\<close>

definition copy_bytes :: "byte list \<Rightarrow> byte list \<Rightarrow> byte list" where
  "copy_bytes dst src = take (length dst) src @ drop (length src) dst"

subsection \<open>golang.org/x/crypto/bcrypt\<close>

text \<open>
  The Blowfish computation of bcrypt (the expensive key setup, and the encryption of
  the magic text under the resulting cipher) is a parameter \<open>bf\<close> of the model: a
  function from the key material, the cost and the salt to the digest. Nothing is
  assumed about it, so two keys may have the same digest. What the model fixes is how
  the password enters: bcrypt appends a NUL byte to the password, and the Blowfish key
  schedule reads the key cyclically into its eighteen 32-bit subkeys, so the digest
  depends on the password only through the first 72 bytes of that repetition. A hash
  string is either a well-formed bcrypt hash with a cost, a salt and a digest, or
  another string. For a string that is no bcrypt hash the library reports in which way
  it is malformed; the model has one message for all of them, which the hasher does
  not pass on.
\<close>

type_synonym blowfish = "byte list \<Rightarrow> int \<Rightarrow> byte list \<Rightarrow> byte list"

datatype hashed = Bcrypt (bc_cost: int) (bc_salt: "byte list") (bc_digest: "byte list")
  | NotBcrypt string

definition bcrypt_key :: "string \<Rightarrow> byte list" where
  "bcrypt_key password = take 72 (concat (replicate 72 (bytes_of password @ [0])))"

definition InvalidCostError :: "int \<Rightarrow> string" where
  "InvalidCostError c =
     ''crypto/bcrypt: cost '' @ strconv_Itoa c @ '' is outside allowed inclusive range 4..31''"

definition bcrypt_GenerateFromPassword ::
  "blowfish \<Rightarrow> byte list \<Rightarrow> string \<Rightarrow> int \<Rightarrow> string + hashed" where
  "bcrypt_GenerateFromPassword bf salt password cost =
     (if length password > 72 then Inl ''bcrypt: password length exceeds 72 bytes''
      else let cost' = (if cost < 4 then 10 else cost) in
        if cost' > 31 then Inl (InvalidCostError cost')
        else Inr (Bcrypt cost' salt (bf (bcrypt_key password) cost' salt)))"

definition bcrypt_CompareHashAndPassword ::
  "blowfish \<Rightarrow> hashed \<Rightarrow> string \<Rightarrow> string option" where
  "bcrypt_CompareHashAndPassword bf hashedPassword password =
     (case hashedPassword of
        NotBcrypt s \<Rightarrow> Some ''crypto/bcrypt: hashedSecret too short to be a bcrypted password''
      | Bcrypt c salt digest \<Rightarrow>
          if c < 4 \<or> c > 31 then Some (InvalidCostError c)
          else if bf (bcrypt_key password) c salt = digest then None
          else Some ''crypto/bcrypt: hashedPassword is not the hash of the given password'')"

definition hashed_len :: "hashed \<Rightarrow> nat" where
  "hashed_len h = (case h of NotBcrypt s \<Rightarrow> length s | Bcrypt c salt digest \<Rightarrow> 60)"

subsection \<open>encoding/json and go-jose\<close>

text \<open>
  JSON text is kept as the value it denotes. \<^verbatim>\<open>json.Marshal\<close> coerces a Go string to
  valid UTF-8, replacing each invalid byte by U+FFFD; \<open>rune_size\<close> is the length of the
  valid encoding at the head of a byte sequence as \<^verbatim>\<open>utf8.DecodeRuneInString\<close> finds
  it, 0 if there is none.
\<close>

datatype json = JNull | JBool bool | JString string | JNumber int | JTime Time
  | JArray "json list" | JObject "(string \<times> json) list"

definition cont_byte :: "byte \<Rightarrow> bool" where
  "cont_byte b = (0x80 \<le> b \<and> b \<le> 0xBF)"

fun rune_size :: "byte list \<Rightarrow> nat" where
  "rune_size [] = 0"
| "rune_size (b0 # bs) =
    (if b0 < 0x80 then 1
     else if 0xC2 \<le> b0 \<and> b0 \<le> 0xDF then
       (case bs of b1 # r1 \<Rightarrow> if cont_byte b1 then 2 else 0 | [] \<Rightarrow> 0)
     else if 0xE0 \<le> b0 \<and> b0 \<le> 0xEF then
       (case bs of
          b1 # b2 # r2 \<Rightarrow>
            if (if b0 = 0xE0 then 0xA0 else 0x80) \<le> b1 \<and>
               b1 \<le> (if b0 = 0xED then 0x9F else 0xBF) \<and> cont_byte b2 then 3 else 0
        | _ \<Rightarrow> 0)
     else if 0xF0 \<le> b0 \<and> b0 \<le> 0xF4 then
       (case bs of
          b1 # b2 # b3 # r3 \<Rightarrow>
            if (if b0 = 0xF0 then 0x90 else 0x80) \<le> b1 \<and>
               b1 \<le> (if b0 = 0xF4 then 0x8F else 0xBF) \<and> cont_byte b2 \<and> cont_byte b3
            then 4 else 0
        | _ \<Rightarrow> 0)
     else 0)"

function to_valid_utf8 :: "byte list \<Rightarrow> byte list" where
  "to_valid_utf8 [] = []"
| "to_valid_utf8 (b # bs) =
    (if rune_size (b # bs) = 0 then [0xEF, 0xBF, 0xBD] @ to_valid_utf8 bs
     else take (rune_size (b # bs)) (b # bs) @ to_valid_utf8 (drop (rune_size (b # bs) - 1) bs))"
  by pat_completeness auto
termination
  by (relation "measure length") auto

text \<open>The string read back from the JSON text that \<^verbatim>\<open>json.Marshal\<close> writes for \<open>s\<close>.\<close>

definition json_string :: "string \<Rightarrow> string" where
  "json_string s = string_of (to_valid_utf8 (bytes_of s))"

definition utf8_ValidString :: "string \<Rightarrow> bool" where
  "utf8_ValidString s = (json_string s = s)"

text \<open>
  A JSON number decoded into an \<^verbatim>\<open>interface{}\<close> is a \<^verbatim>\<open>float64\<close>; \<open>via_float64 n\<close> is
  the integer \<^verbatim>\<open>int64(float64(n))\<close> for an \<^verbatim>\<open>int64\<close> \<open>n\<close>: \<open>n\<close> itself up to 53 bits,
  beyond that \<open>n\<close> rounded to 53 significant bits (ties to even).
\<close>

definition via_float64 :: "int \<Rightarrow> int" where
  "via_float64 n =
     (let a = \<bar>n\<bar>;
          e = length (takeWhile (\<lambda>e. 2 ^ 53 \<le> a div 2 ^ e) [0..<12]);
          q = a div 2 ^ e;
          r = a mod 2 ^ e;
          q' = (if 2 * r > 2 ^ e \<or> (2 * r = 2 ^ e \<and> odd q) then q + 1 else q)
      in sgn n * (q' * 2 ^ e))"

text \<open>
  A token string is either the compact serialisation of a JWE (direct key agreement,
  A256GCM) under an encryption key, or another string; the plaintext of a JWE is either
  a compact JWS (HS256) under a signing key over a JSON payload, or other bytes.
  Decryption and signature verification succeed exactly under the key used to encrypt
  and to sign; the random nonce of the encryption is not represented.
\<close>

datatype jws = JWS (sig_key: "byte list") (payload: json) | NotJWS string

datatype token = JWE (enc_key: "byte list") (plaintext: jws) | NotJWE string

text \<open>
  The library's own error message, which tells how the input is malformed, is not
  modelled further: one text stands for all of them. The JSON decoder of go-jose
  rejects an object in which a key occurs twice, at any depth.
\<close>

fun duplicate_free :: "json \<Rightarrow> bool" where
  "duplicate_free (JArray vs) = list_all duplicate_free vs"
| "duplicate_free (JObject kvs) =
     (distinct (map fst kvs) \<and> list_all duplicate_free (map snd kvs))"
| "duplicate_free v = True"

definition jose_error :: string where
  "jose_error = ''go-jose/go-jose: error in cryptographic primitive''"

section \<open>Domain values\<close>

text \<open>\<^verbatim>\<open>account.Account\<close>; the password field holds the hash string.\<close>

record Account =
  ID :: string
  Email :: string
  Password :: hashed
  Name :: string
  Nickname :: string
  Picture :: string
  CreatedAt :: Time
  UpdatedAt :: Time
  Verified :: bool
  Blocked :: bool

text \<open>\<^verbatim>\<open>account.CreateAccountRequest\<close>\<close>

record CreateAccountRequest =
  Email :: string
  Password :: string
  Name :: string

text \<open>\<^verbatim>\<open>auth.TokenPair\<close>\<close>

record TokenPair =
  AccessToken :: token
  RefreshToken :: token
  IDToken :: string
  TokenType :: string
  ExpiresIn :: int
  Scope :: string

text \<open>\<^verbatim>\<open>auth.Claims\<close>\<close>

record Claims =
  Subject :: string
  Issuer :: string
  Audience :: "string list"
  ExpiresAt :: Time
  IssuedAt :: Time
  NotBefore :: Time
  Email :: string
  Name :: string
  Scope :: string

text \<open>\<^verbatim>\<open>auth.AuthorizationCode\<close>\<close>

record AuthorizationCode =
  Code :: string
  ClientID :: string
  RedirectURI :: string
  Scope :: string
  AccountID :: string
  CodeChallenge :: string
  CodeChallengeMethod :: string
  ExpiresAt :: Time
  Used :: bool

text \<open>\<^verbatim>\<open>errors.AppError\<close> and the package's error values.\<close>

record AppError =
  Code :: string
  Message :: string

definition WithMessage :: "AppError \<Rightarrow> string \<Rightarrow> AppError" where
  "WithMessage e message = \<lparr>AppError.Code = AppError.Code e, Message = message\<rparr>"

definition ErrInvalidRequest :: AppError where
  "ErrInvalidRequest =
     \<lparr>AppError.Code = ''invalid_request'', Message = ''The request is invalid''\<rparr>"

definition ErrMethodNotAllowed :: AppError where
  "ErrMethodNotAllowed =
     \<lparr>AppError.Code = ''method_not_allowed'', Message = ''Method not allowed''\<rparr>"

definition ErrUserExists :: AppError where
  "ErrUserExists =
     \<lparr>AppError.Code = ''account_exists'', Message = ''Account already exists''\<rparr>"

definition ErrInternalServerError :: AppError where
  "ErrInternalServerError =
     \<lparr>AppError.Code = ''server_error'', Message = ''Internal server error''\<rparr>"

section \<open>Package crypto\<close>

subsection \<open>Password hasher\<close>

record BcryptPasswordHasher =
  cost :: int

text \<open>\<^verbatim>\<open>NewBcryptPasswordHasher(cost)\<close>\<close>

definition NewBcryptPasswordHasher :: "int \<Rightarrow> BcryptPasswordHasher" where
  "NewBcryptPasswordHasher c = \<lparr>cost = (if c < 4 \<or> c > 31 then 10 else c)\<rparr>"

text \<open>
  \<^verbatim>\<open>BcryptPasswordHasher.Hash(password)\<close>; \<open>salt\<close> is the 16 random bytes that bcrypt
  draws for this call, and \<open>bf\<close> the Blowfish computation of the library.
\<close>

definition Hash ::
  "blowfish \<Rightarrow> BcryptPasswordHasher \<Rightarrow> byte list \<Rightarrow> string \<Rightarrow> string + hashed" where
  "Hash bf h salt password =
     (if length password = 0 then Inl ''password cannot be empty''
      else case bcrypt_GenerateFromPassword bf salt password (cost h) of
             Inl err \<Rightarrow> Inl (''failed to hash password: '' @ err)
           | Inr hash \<Rightarrow> Inr hash)"

text \<open>\<^verbatim>\<open>BcryptPasswordHasher.Compare(hashedPassword, password)\<close>\<close>

definition Compare ::
  "blowfish \<Rightarrow> BcryptPasswordHasher \<Rightarrow> hashed \<Rightarrow> string \<Rightarrow> string option" where
  "Compare bf h hashedPassword password =
     (if length password = 0 \<or> hashed_len hashedPassword = 0 then
        Some ''password and hash cannot be empty''
      else case bcrypt_CompareHashAndPassword bf hashedPassword password of
             Some err \<Rightarrow> Some ''invalid password''
           | None \<Rightarrow> None)"

subsection \<open>Identifier generator\<close>

text \<open>
  \<^verbatim>\<open>IDGenerator.Generate()\<close>, given the 16 bytes read from the random source; with the
  Go version of the module (1.24), \<^verbatim>\<open>rand.Read\<close> returns no error.
\<close>

definition Generate :: "byte list \<Rightarrow> string + string" where
  "Generate bytes = Inr (hex_EncodeToString bytes)"

subsection \<open>Token service\<close>

record JWETokenService =
  encryptionKey :: "byte list"
  signingKey :: "byte list"
  issuer :: string
  audience :: "string list"

text \<open>
  \<^verbatim>\<open>NewJWETokenService(secretKey, issuer, audience)\<close>. The function has no error result:
  it returns the service or panics.
\<close>

definition NewJWETokenService ::
  "string \<Rightarrow> string \<Rightarrow> string list \<Rightarrow> JWETokenService go" where
  "NewJWETokenService secretKey iss aud =
     (let encKey = replicate 32 0; sigKey = replicate 32 0 in
      case slice_upto (bytes_of (secretKey @ ''_enc'')) 32 of
        Panic msg \<Rightarrow> Panic msg
      | Return encSrc \<Rightarrow>
      (case slice_upto (bytes_of (secretKey @ ''_sig'')) 32 of
        Panic msg \<Rightarrow> Panic msg
      | Return sigSrc \<Rightarrow>
          Return \<lparr>encryptionKey = copy_bytes encKey encSrc,
                  signingKey = copy_bytes sigKey sigSrc,
                  issuer = iss, audience = aud\<rparr>))"

text \<open>
  \<^verbatim>\<open>JWETokenService.createEncryptedToken(claims)\<close>. \<^verbatim>\<open>json.Marshal\<close> writes the keys of
  the claims map in sorted order, and writes \<^verbatim>\<open>null\<close> for a nil slice: the empty list
  stands for the nil audience (an empty audience that is not nil, written as \<^verbatim>\<open>[]\<close>, is
  not represented). With the 32-byte keys of the service the signer and the encrypter
  do not fail.
\<close>

definition customClaims :: "Claims \<Rightarrow> (string \<times> json) list" where
  "customClaims claims =
     [(''aud'', if Audience claims = [] then JNull
                else JArray (map (\<lambda>a. JString (json_string a)) (Audience claims))),
      (''email'', JString (json_string (Claims.Email claims))),
      (''exp'', JNumber (Unix (Claims.ExpiresAt claims))),
      (''iat'', JNumber (Unix (IssuedAt claims))),
      (''iss'', JString (json_string (Issuer claims))),
      (''name'', JString (json_string (Claims.Name claims))),
      (''nbf'', JNumber (Unix (NotBefore claims)))]
     @ (if Claims.Scope claims \<noteq> [] then
          [(''scope'', JString (json_string (Claims.Scope claims)))] else [])
     @ [(''sub'', JString (json_string (Subject claims)))]"

definition createEncryptedToken :: "JWETokenService \<Rightarrow> Claims \<Rightarrow> string + token" where
  "createEncryptedToken s claims =
     Inr (JWE (encryptionKey s) (JWS (signingKey s) (JObject (customClaims claims))))"

text \<open>\<^verbatim>\<open>JWETokenService.GenerateTokenPair(ctx, userID, email, name)\<close> at the instant \<open>now\<close>.\<close>

definition GenerateTokenPair ::
  "JWETokenService \<Rightarrow> Context \<Rightarrow> Time \<Rightarrow> string \<Rightarrow> string \<Rightarrow> string \<Rightarrow> string + TokenPair" where
  "GenerateTokenPair s ctx now userID email name =
    (case ctx of
       Some e \<Rightarrow> Inl (ctx_message e)
     | None \<Rightarrow>
       let accessClaims = \<lparr>Subject = userID, Issuer = issuer s, Audience = audience s,
                           Claims.ExpiresAt = now + 24 * Hour, IssuedAt = now, NotBefore = now,
                           Claims.Email = email, Claims.Name = name,
                           Claims.Scope = ''openid profile email''\<rparr> in
       (case createEncryptedToken s accessClaims of
          Inl err \<Rightarrow> Inl (''failed to create access token: '' @ err)
        | Inr accessToken \<Rightarrow>
          let refreshClaims = \<lparr>Subject = userID, Issuer = issuer s, Audience = audience s,
                               Claims.ExpiresAt = now + 7 * 24 * Hour, IssuedAt = now,
                               NotBefore = now, Claims.Email = email, Claims.Name = name,
                               Claims.Scope = []\<rparr> in
          (case createEncryptedToken s refreshClaims of
             Inl err \<Rightarrow> Inl (''failed to create refresh token: '' @ err)
           | Inr refreshToken \<Rightarrow>
               Inr \<lparr>AccessToken = accessToken, RefreshToken = refreshToken, IDToken = [],
                    TokenType = ''Bearer'', ExpiresIn = 86400,
                    TokenPair.Scope = ''openid profile email''\<rparr>)))"

text \<open>
  \<^verbatim>\<open>JWETokenService.ValidateToken(ctx, tokenString)\<close>; \<open>now1\<close> and \<open>now2\<close> are the two
  readings of the clock, for the expiry and for the not-before check. \<open>raw_claims\<close> is
  the map that \<^verbatim>\<open>token.Claims\<close> decodes the payload into: that of the object's members,
  the nil map for the payload \<^verbatim>\<open>null\<close>, and an error for any other payload.
\<close>

definition raw_claims :: "json \<Rightarrow> (string \<rightharpoonup> json) option" where
  "raw_claims pl =
     (case pl of
        JObject kvs \<Rightarrow> if duplicate_free pl then Some (map_of kvs) else None
      | JNull \<Rightarrow> Some Map.empty
      | _ \<Rightarrow> None)"

definition claim_string :: "(string \<rightharpoonup> json) \<Rightarrow> string \<Rightarrow> string" where
  "claim_string rawClaims k = (case rawClaims k of Some (JString v) \<Rightarrow> v | _ \<Rightarrow> [])"

definition claim_time :: "(string \<rightharpoonup> json) \<Rightarrow> string \<Rightarrow> Time" where
  "claim_time rawClaims k =
     (case rawClaims k of Some (JNumber n) \<Rightarrow> time_Unix (via_float64 n) | _ \<Rightarrow> zeroTime)"

definition claim_audience :: "(string \<rightharpoonup> json) \<Rightarrow> string list" where
  "claim_audience rawClaims =
     (case rawClaims ''aud'' of
        Some (JString v) \<Rightarrow> [v]
      | Some (JArray v) \<Rightarrow> map (\<lambda>a. case a of JString s \<Rightarrow> s | _ \<Rightarrow> []) v
      | _ \<Rightarrow> [])"

definition ValidateToken ::
  "JWETokenService \<Rightarrow> Context \<Rightarrow> Time \<Rightarrow> Time \<Rightarrow> token \<Rightarrow> string + Claims" where
  "ValidateToken s ctx now1 now2 tokenString =
    (case ctx of
       Some e \<Rightarrow> Inl (ctx_message e)
     | None \<Rightarrow>
    (case tokenString of
       NotJWE str \<Rightarrow> Inl (''failed to parse JWE token: '' @ jose_error)
     | JWE ek decrypted \<Rightarrow>
       if ek \<noteq> encryptionKey s then Inl (''failed to decrypt token: '' @ jose_error)
       else
       (case decrypted of
          NotJWS str \<Rightarrow> Inl (''failed to parse decrypted JWT: '' @ jose_error)
        | JWS sk pl \<Rightarrow>
          if sk \<noteq> signingKey s then Inl (''failed to verify token signature: '' @ jose_error)
          else
          (case raw_claims pl of
             Some rawClaims \<Rightarrow>
               let claims = \<lparr>Subject = claim_string rawClaims ''sub'',
                             Issuer = claim_string rawClaims ''iss'',
                             Audience = claim_audience rawClaims,
                             Claims.ExpiresAt = claim_time rawClaims ''exp'',
                             IssuedAt = claim_time rawClaims ''iat'',
                             NotBefore = claim_time rawClaims ''nbf'',
                             Claims.Email = claim_string rawClaims ''email'',
                             Claims.Name = claim_string rawClaims ''name'',
                             Claims.Scope = claim_string rawClaims ''scope''\<rparr>
               in if now1 > Claims.ExpiresAt claims then Inl ''token has expired''
                  else if now2 < NotBefore claims then Inl ''token not yet valid''
                  else Inr claims
           | None \<Rightarrow> Inl (''failed to verify token signature: '' @ jose_error)))))"

text \<open>The claim set that a token carries, for a token made by \<open>createEncryptedToken\<close>.\<close>

definition carried_claims :: "token \<Rightarrow> string \<rightharpoonup> json" where
  "carried_claims t =
     (case t of JWE ek (JWS sk (JObject kvs)) \<Rightarrow> map_of kvs | _ \<Rightarrow> Map.empty)"

section \<open>Package config\<close>

record Config =
  ServerAddress :: string
  JWESecret :: string
  Issuer :: string
  Domain :: string

text \<open>\<^verbatim>\<open>LoadConfig()\<close>, given \<^verbatim>\<open>os.Getenv\<close>.\<close>

definition LoadConfig :: "(string \<Rightarrow> string) \<Rightarrow> string + Config" where
  "LoadConfig getenv =
     (let addr = (if getenv ''SERVER_ADDRESS'' = [] then '':8080''
                  else getenv ''SERVER_ADDRESS'');
          jweSecret = getenv ''JWE_SECRET''
      in if jweSecret = [] then Inl ''JWE_SECRET is required''
         else
           let iss = (if getenv ''ISSUER'' = [] then ''auth0-server'' else getenv ''ISSUER'');
               domain = (if getenv ''DOMAIN'' = [] then ''localhost:8080''
                         else getenv ''DOMAIN'')
           in Inr \<lparr>ServerAddress = addr, JWESecret = jweSecret, Config.Issuer = iss,
                   Domain = domain\<rparr>)"

section \<open>Package storage: the in-memory account repository\<close>

text \<open>
  \<^verbatim>\<open>InMemoryAccountRepository.accounts\<close> maps an account id to its record. The
  repository stores and returns copies, so no record is shared with a caller. The
  order in which a \<^verbatim>\<open>range\<close> loop visits a Go map is not specified and changes from one
  loop to the next; a function that ranges over the map takes that order as the list of
  keys \<open>order\<close>. Calls to the logger have no effect on the results and are left out.
\<close>

type_synonym accounts = "string \<rightharpoonup> Account"

definition range_accounts :: "accounts \<Rightarrow> string list \<Rightarrow> Account list" where
  "range_accounts accs order = List.map_filter accs order"

text \<open>An order is one a loop can take when it lists each key of the map once.\<close>

definition visits :: "string list \<Rightarrow> accounts \<Rightarrow> bool" where
  "visits order accs = (distinct order \<and> set order = dom accs)"

text \<open>\<^verbatim>\<open>InMemoryAccountRepository.Create(ctx, acc)\<close>\<close>

definition InMemory_Create ::
  "Context \<Rightarrow> string list \<Rightarrow> accounts \<Rightarrow> Account \<Rightarrow> string option \<times> accounts" where
  "InMemory_Create ctx order accs acc =
    (case ctx of
       Some e \<Rightarrow> (Some (ctx_message e), accs)
     | None \<Rightarrow>
       if accs (ID acc) \<noteq> None then
         (Some (''account with ID '' @ ID acc @ '' already exists''), accs)
       else if List.find (\<lambda>existing. Account.Email existing = Account.Email acc)
                 (range_accounts accs order) \<noteq> None then
         (Some (''account with email '' @ Account.Email acc @ '' already exists''), accs)
       else (None, accs(ID acc \<mapsto> acc)))"

text \<open>\<^verbatim>\<open>InMemoryAccountRepository.GetByID(ctx, id)\<close>\<close>

definition InMemory_GetByID :: "Context \<Rightarrow> accounts \<Rightarrow> string \<Rightarrow> string + Account" where
  "InMemory_GetByID ctx accs id' =
    (case ctx of
       Some e \<Rightarrow> Inl (ctx_message e)
     | None \<Rightarrow> (case accs id' of None \<Rightarrow> Inl ''account not found'' | Some acc \<Rightarrow> Inr acc))"

text \<open>\<^verbatim>\<open>InMemoryAccountRepository.GetByEmail(ctx, email)\<close>\<close>

definition InMemory_GetByEmail ::
  "Context \<Rightarrow> string list \<Rightarrow> accounts \<Rightarrow> string \<Rightarrow> string + Account" where
  "InMemory_GetByEmail ctx order accs email =
    (case ctx of
       Some e \<Rightarrow> Inl (ctx_message e)
     | None \<Rightarrow>
       (case List.find (\<lambda>acc. Account.Email acc = email) (range_accounts accs order) of
          Some acc \<Rightarrow> Inr acc
        | None \<Rightarrow> Inl ''account not found''))"

text \<open>
  \<^verbatim>\<open>InMemoryAccountRepository.List(ctx, limit, offset)\<close>. The sum \<^verbatim>\<open>start + limit\<close> of two
  values of type \<^verbatim>\<open>int\<close> (64 bits) wraps around. The slice expression
  \<^verbatim>\<open>accounts[start:end]\<close> panics unless \<open>0 \<le> start \<le> end\<close>; the run-time checks the upper
  bound first.
\<close>

definition go_int :: "int \<Rightarrow> int" where
  "go_int i = (i + 2 ^ 63) mod 2 ^ 64 - 2 ^ 63"

definition InMemory_List ::
  "Context \<Rightarrow> string list \<Rightarrow> accounts \<Rightarrow> int \<Rightarrow> int \<Rightarrow> (string + Account list) go" where
  "InMemory_List ctx order accs limit offset =
    (case ctx of
       Some e \<Rightarrow> Return (Inl (ctx_message e))
     | None \<Rightarrow>
       let accounts = range_accounts accs order;
           n = int (length accounts);
           start = (if offset > n then n else offset);
           sum = go_int (start + limit);
           end' = (if sum > n then n else sum)
       in if end' < 0 then
            Panic (''runtime error: slice bounds out of range [:'' @ strconv_Itoa end' @ '']'')
          else if start < 0 then
            Panic (''runtime error: slice bounds out of range ['' @ strconv_Itoa start @ '':]'')
          else if end' < start then
            Panic (''runtime error: slice bounds out of range ['' @ strconv_Itoa start
                   @ '':'' @ strconv_Itoa end' @ '']'')
          else Return (Inr (take (nat (end' - start)) (drop (nat start) accounts))))"

section \<open>Package usecases\<close>

text \<open>
  What a request observes of the world outside the server's state: the state of its
  context, the order in which a loop visits the account map, the bytes that
  \<^verbatim>\<open>crypto/rand\<close> delivers to the use case and the salt it delivers to bcrypt, and two
  successive readings of the clock.
\<close>

record world =
  w_ctx :: Context
  w_order :: "string list"
  w_random :: "byte list"
  w_salt :: "byte list"
  w_now :: Time
  w_now2 :: Time

subsection \<open>AccountUseCase\<close>

text \<open>\<^verbatim>\<open>AccountUseCase.CreateAccount(ctx, email, password, name)\<close>\<close>

definition CreateAccount ::
  "blowfish \<Rightarrow> BcryptPasswordHasher \<Rightarrow> world \<Rightarrow> accounts \<Rightarrow> string \<Rightarrow> string \<Rightarrow> string
    \<Rightarrow> (string + Account) \<times> accounts" where
  "CreateAccount bf hasher w accs email password name =
    (case w_ctx w of
       Some e \<Rightarrow> (Inl (ctx_message e), accs)
     | None \<Rightarrow>
       if email = [] then (Inl ''email is required'', accs)
       else if password = [] then (Inl ''password is required'', accs)
       else if length password < 8 then
         (Inl ''password must be at least 8 characters'', accs)
       else
       (case InMemory_GetByEmail (w_ctx w) (w_order w) accs email of
          Inr existingAccount \<Rightarrow>
            (Inl (''account with email '' @ email @ '' already exists''), accs)
        | Inl notFound \<Rightarrow>
          (case Generate (w_random w) of
             Inl err \<Rightarrow> (Inl (''failed to generate account ID: '' @ err), accs)
           | Inr accountID \<Rightarrow>
             (case Hash bf hasher (w_salt w) password of
                Inl err \<Rightarrow> (Inl (''failed to hash password: '' @ err), accs)
              | Inr hashedPassword \<Rightarrow>
                let newAccount =
                      \<lparr>ID = accountID, Account.Email = email,
                       Account.Password = hashedPassword, Account.Name = name,
                       Nickname = name, Picture = [], CreatedAt = w_now w,
                       UpdatedAt = w_now2 w, Verified = True, Blocked = False\<rparr>
                in (case InMemory_Create (w_ctx w) (w_order w) accs newAccount of
                      (Some err, accs') \<Rightarrow> (Inl (''failed to create account: '' @ err), accs')
                    | (None, accs') \<Rightarrow> (Inr newAccount, accs'))))))"

text \<open>\<^verbatim>\<open>AccountUseCase.GetAccount(ctx, id)\<close>\<close>

definition GetAccount :: "Context \<Rightarrow> accounts \<Rightarrow> string \<Rightarrow> string + Account" where
  "GetAccount ctx accs id' =
    (case ctx of
       Some e \<Rightarrow> Inl (ctx_message e)
     | None \<Rightarrow> if id' = [] then Inl ''account ID is required''
               else InMemory_GetByID ctx accs id')"

text \<open>\<^verbatim>\<open>AccountUseCase.GetAccountByEmail(ctx, email)\<close>\<close>

definition GetAccountByEmail ::
  "Context \<Rightarrow> string list \<Rightarrow> accounts \<Rightarrow> string \<Rightarrow> string + Account" where
  "GetAccountByEmail ctx order accs email =
    (case ctx of
       Some e \<Rightarrow> Inl (ctx_message e)
     | None \<Rightarrow> if email = [] then Inl ''email is required''
               else InMemory_GetByEmail ctx order accs email)"

text \<open>\<^verbatim>\<open>AccountUseCase.ListAccounts(ctx, limit, offset)\<close>\<close>

definition ListAccounts ::
  "Context \<Rightarrow> string list \<Rightarrow> accounts \<Rightarrow> int \<Rightarrow> int \<Rightarrow> (string + Account list) go" where
  "ListAccounts ctx order accs limit offset =
    (case ctx of
       Some e \<Rightarrow> Return (Inl (ctx_message e))
     | None \<Rightarrow>
       let limit1 = (if limit \<le> 0 then 10 else limit);
           limit2 = (if limit1 > 100 then 100 else limit1);
           offset1 = (if offset < 0 then 0 else offset)
       in InMemory_List ctx order accs limit2 offset1)"

text \<open>\<^verbatim>\<open>AccountUseCase.VerifyPassword(hashedPassword, password)\<close>\<close>

definition VerifyPassword ::
  "blowfish \<Rightarrow> BcryptPasswordHasher \<Rightarrow> hashed \<Rightarrow> string \<Rightarrow> bool" where
  "VerifyPassword bf hasher hashedPassword password =
     (Compare bf hasher hashedPassword password = None)"

subsection \<open>AuthUseCase\<close>

text \<open>\<^verbatim>\<open>AuthUseCase.validatePKCE(codeChallenge, codeVerifier, method)\<close>\<close>

definition validatePKCE :: "string \<Rightarrow> string \<Rightarrow> string \<Rightarrow> bool" where
  "validatePKCE codeChallenge codeVerifier method =
     (if method \<noteq> ''S256'' then False
      else let hash = sha256_Sum256 (bytes_of codeVerifier);
               expectedChallenge = b64_EncodeToString False hash
           in expectedChallenge = codeChallenge)"

text \<open>
  \<^verbatim>\<open>AuthUseCase.authorizationCodes\<close>: a Go map from the code value to a pointer to its
  record. Each record is reachable from one key only, so the map of record values
  carries the same information, and a write through the pointer is an update of the map.
\<close>

type_synonym registry = "string \<rightharpoonup> AuthorizationCode"

text \<open>
  \<^verbatim>\<open>AuthUseCase.CreateAuthorizationCode(ctx, email, password, clientID, redirectURI,
  scope, codeChallenge, codeChallengeMethod)\<close>; \<open>w_random\<close> is the 32 bytes of the code.
\<close>

definition CreateAuthorizationCode ::
  "blowfish \<Rightarrow> BcryptPasswordHasher \<Rightarrow> world \<Rightarrow> accounts \<Rightarrow> registry \<Rightarrow> string \<Rightarrow> string \<Rightarrow> string
    \<Rightarrow> string \<Rightarrow> string \<Rightarrow> string \<Rightarrow> string \<Rightarrow> (string + string) \<times> registry" where
  "CreateAuthorizationCode bf hasher w accs codes email password clientID redirectURI scope
      codeChallenge codeChallengeMethod =
    (case w_ctx w of
       Some e \<Rightarrow> (Inl (ctx_message e), codes)
     | None \<Rightarrow>
       (case GetAccountByEmail (w_ctx w) (w_order w) accs email of
          Inl err \<Rightarrow> (Inl (''authentication failed: '' @ err), codes)
        | Inr acc \<Rightarrow>
          if \<not> VerifyPassword bf hasher (Account.Password acc) password then
            (Inl ''authentication failed: invalid credentials'', codes)
          else
            let code = b64_EncodeToString True (w_random w);
                authCode = \<lparr>AuthorizationCode.Code = code, ClientID = clientID,
                            RedirectURI = redirectURI, AuthorizationCode.Scope = scope,
                            AccountID = ID acc, CodeChallenge = codeChallenge,
                            CodeChallengeMethod = codeChallengeMethod,
                            AuthorizationCode.ExpiresAt = w_now w + 10 * Minute,
                            Used = False\<rparr>
            in (Inr code, codes(code \<mapsto> authCode))))"

text \<open>
  What one call of the exchange observes outside the registry: the state of its context,
  the clock, and the two collaborators \<^verbatim>\<open>accountUseCase.GetAccount\<close> and
  \<^verbatim>\<open>tokenService.GenerateTokenPair\<close> (an interface), each of which may fail.
\<close>

record exchange_env =
  ex_ctx :: Context
  ex_now :: Time
  accountUseCase_GetAccount :: "string \<Rightarrow> string + Account"
  tokenService_GenerateTokenPair :: "string \<Rightarrow> string \<Rightarrow> string \<Rightarrow> string + TokenPair"

text \<open>\<^verbatim>\<open>AuthUseCase.ExchangeCodeForTokens(ctx, code, clientID, codeVerifier, redirectURI)\<close>\<close>

definition ExchangeCodeForTokens ::
  "exchange_env \<Rightarrow> registry \<Rightarrow> string \<Rightarrow> string \<Rightarrow> string \<Rightarrow> string
    \<Rightarrow> (string + TokenPair) \<times> registry" where
  "ExchangeCodeForTokens env codes code clientID codeVerifier redirectURI =
    (case ex_ctx env of
       Some e \<Rightarrow> (Inl (ctx_message e), codes)
     | None \<Rightarrow>
    (case codes code of
       None \<Rightarrow> (Inl ''invalid authorization code'', codes)
     | Some authCode \<Rightarrow>
       if ex_now env > AuthorizationCode.ExpiresAt authCode then
         (Inl ''authorization code expired'', codes(code := None))
       else if Used authCode then
         (Inl ''authorization code already used'', codes(code := None))
       else if ClientID authCode \<noteq> clientID then
         (Inl ''invalid client ID'', codes)
       else if RedirectURI authCode \<noteq> redirectURI then
         (Inl ''invalid redirect URI'', codes)
       else if \<not> validatePKCE (CodeChallenge authCode) codeVerifier
                   (CodeChallengeMethod authCode) then
         (Inl ''PKCE validation failed'', codes)
       else
         let codes1 = codes(code \<mapsto> authCode\<lparr>Used := True\<rparr>) in
         (case accountUseCase_GetAccount env (AccountID authCode) of
            Inl err \<Rightarrow> (Inl (''failed to get account: '' @ err), codes1)
          | Inr acc \<Rightarrow>
            (case tokenService_GenerateTokenPair env (ID acc) (Account.Email acc)
                    (Account.Name acc) of
               Inl err \<Rightarrow> (Inl (''failed to generate tokens: '' @ err), codes1)
             | Inr tokenPair \<Rightarrow> (Inr tokenPair, codes1(code := None))))))"

text \<open>
  The exchange as the server wires it: the account use case over the in-memory
  repository and the JWE token service.
\<close>

definition server_env :: "JWETokenService \<Rightarrow> world \<Rightarrow> accounts \<Rightarrow> exchange_env" where
  "server_env svc w accs =
     \<lparr>ex_ctx = w_ctx w, ex_now = w_now w,
      accountUseCase_GetAccount = GetAccount (w_ctx w) accs,
      tokenService_GenerateTokenPair = GenerateTokenPair svc (w_ctx w) (w_now2 w)\<rparr>"

text \<open>
  One request to the token endpoint with the authorization-code grant, and a sequence of
  them served one after the other, each with its own view of the world.
\<close>

record exchange_req =
  req_code :: string
  req_clientID :: string
  req_codeVerifier :: string
  req_redirectURI :: string

definition exchange :: "registry \<Rightarrow> exchange_env \<times> exchange_req
    \<Rightarrow> (string + TokenPair) \<times> registry" where
  "exchange codes call =
     ExchangeCodeForTokens (fst call) codes (req_code (snd call)) (req_clientID (snd call))
       (req_codeVerifier (snd call)) (req_redirectURI (snd call))"

fun run_exchanges :: "registry \<Rightarrow> (exchange_env \<times> exchange_req) list
    \<Rightarrow> (string + TokenPair) list" where
  "run_exchanges codes [] = []"
| "run_exchanges codes (call # calls) =
     fst (exchange codes call) # run_exchanges (snd (exchange codes call)) calls"

text \<open>The number of successful exchanges of code \<open>c\<close> in a run.\<close>

definition successes :: "string \<Rightarrow> (exchange_env \<times> exchange_req) list
    \<Rightarrow> (string + TokenPair) list \<Rightarrow> nat" where
  "successes c calls results =
     length (filter (\<lambda>(call, r). req_code (snd call) = c \<and> succeeded r) (zip calls results))"

text \<open>A code that no exchange can satisfy any more: unknown, or flagged as used.\<close>

definition spent :: "registry \<Rightarrow> string \<Rightarrow> bool" where
  "spent codes c = (case codes c of None \<Rightarrow> True | Some a \<Rightarrow> Used a)"

section \<open>Package handlers\<close>

subsection \<open>net/http\<close>

text \<open>
  A request, as far as the handlers read it: \<^verbatim>\<open>r.URL.Query().Get(k)\<close> is \<open>Query_Get\<close>,
  \<^verbatim>\<open>r.FormValue(k)\<close> is \<open>FormValue\<close> (the posted form before the query), and \<open>Body\<close>
  is what \<^verbatim>\<open>json.NewDecoder(r.Body).Decode\<close> makes of the body as a
  \<^verbatim>\<open>CreateAccountRequest\<close>, \<open>None\<close> when decoding fails.
\<close>

record Request =
  Method :: string
  Path :: string
  Query :: "string \<rightharpoonup> string"
  PostForm :: "string \<rightharpoonup> string"
  Body :: "CreateAccountRequest option"

definition Query_Get :: "Request \<Rightarrow> string \<Rightarrow> string" where
  "Query_Get r k = (case Query r k of None \<Rightarrow> [] | Some v \<Rightarrow> v)"

definition FormValue :: "Request \<Rightarrow> string \<Rightarrow> string" where
  "FormValue r k = (case PostForm r k of None \<Rightarrow> Query_Get r k | Some v \<Rightarrow> v)"

text \<open>
  A response writer: the header map, the status passed to \<^verbatim>\<open>WriteHeader\<close> (0 before
  that), and what has been written to the body.
\<close>

datatype body = JSONBody json
  | LoginForm string string string string string string
  | RedirectNote string

record ResponseWriter =
  Header :: "string \<rightharpoonup> string"
  status :: nat
  written :: "body list"

text \<open>
  \<^verbatim>\<open>http.Redirect(w, r, url, code)\<close>, where \<open>r\<close> may be the \<^verbatim>\<open>nil\<close> request. The
  function reads \<^verbatim>\<open>r.URL.Path\<close> when the URL parses with neither scheme nor host, and
  \<^verbatim>\<open>r.Method\<close> when the writer has no Content-Type header yet; through a \<^verbatim>\<open>nil\<close>
  request either read panics. How a URL is parsed, resolved against the request path
  and escaped is left to the library, as the three functions of \<open>net_http\<close>.
\<close>

record net_http =
  parses_relative :: "string \<Rightarrow> bool"
  resolve :: "string \<Rightarrow> string \<Rightarrow> string"
  hexEscapeNonASCII :: "string \<Rightarrow> string"

definition nil_dereference :: string where
  "nil_dereference = ''runtime error: invalid memory address or nil pointer dereference''"

definition http_Redirect ::
  "net_http \<Rightarrow> ResponseWriter \<Rightarrow> Request option \<Rightarrow> string \<Rightarrow> nat \<Rightarrow> ResponseWriter go" where
  "http_Redirect lib w r url code =
    (case r of
       None \<Rightarrow>
         if parses_relative lib url then Panic nil_dereference
         else if Header w ''Content-Type'' = None then Panic nil_dereference
         else Return (w\<lparr>Header := (Header w)(''Location'' \<mapsto> hexEscapeNonASCII lib url),
                        status := code\<rparr>)
     | Some req \<Rightarrow>
         let url' = (if parses_relative lib url then resolve lib (Path req) url else url);
             hadCT = (Header w ''Content-Type'' \<noteq> None);
             h = (Header w)(''Location'' \<mapsto> hexEscapeNonASCII lib url');
             h' = (if \<not> hadCT \<and> (Method req = ''GET'' \<or> Method req = ''HEAD'')
                   then h(''Content-Type'' \<mapsto> ''text/html; charset=utf-8'') else h)
         in Return (w\<lparr>Header := h', status := code,
                      written := written w @
                        (if \<not> hadCT \<and> Method req = ''GET'' then [RedirectNote url'] else [])\<rparr>))"

subsection \<open>AuthHandler\<close>

text \<open>\<^verbatim>\<open>AuthHandler.sendJSON(w, data, statusCode)\<close>\<close>

definition sendJSON :: "ResponseWriter \<Rightarrow> json \<Rightarrow> nat \<Rightarrow> ResponseWriter" where
  "sendJSON w data statusCode =
     w\<lparr>Header := (Header w)(''Content-Type'' \<mapsto> ''application/json''),
       status := statusCode, written := written w @ [JSONBody data]\<rparr>"

text \<open>\<^verbatim>\<open>AuthHandler.sendError(w, err, statusCode)\<close>\<close>

definition sendError :: "ResponseWriter \<Rightarrow> AppError \<Rightarrow> nat \<Rightarrow> ResponseWriter" where
  "sendError w err statusCode =
     w\<lparr>Header := (Header w)(''Content-Type'' \<mapsto> ''application/json''),
       status := statusCode,
       written := written w @
         [JSONBody (JObject [(''error'', JString (AppError.Code err)),
                             (''error_description'', JString (Message err))])]\<rparr>"

text \<open>
  \<^verbatim>\<open>AuthHandler.sendAuthorizationError(w, redirectURI, errorCode, errorDescription,
  state)\<close>; the redirect is made with a \<^verbatim>\<open>nil\<close> request.
\<close>

definition sendAuthorizationError ::
  "net_http \<Rightarrow> ResponseWriter \<Rightarrow> string \<Rightarrow> string \<Rightarrow> string \<Rightarrow> string \<Rightarrow> ResponseWriter go" where
  "sendAuthorizationError lib w redirectURI errorCode errorDescription state =
    (if redirectURI = [] then
       Return (w\<lparr>Header := (Header w)(''Content-Type'' \<mapsto> ''application/json''),
                 status := 400,
                 written := written w @
                   [JSONBody (JObject [(''error'', JString errorCode),
                                       (''error_description'', JString errorDescription)])]\<rparr>)
     else
       let redirectURL = redirectURI @ ''?error='' @ errorCode @ ''&error_description=''
                           @ errorDescription;
           redirectURL' = (if state \<noteq> [] then redirectURL @ ''&state='' @ state
                           else redirectURL)
       in http_Redirect lib w None redirectURL' 302)"

text \<open>
  \<^verbatim>\<open>AuthHandler.renderLoginForm(w, clientID, redirectURI, state, scope, codeChallenge,
  codeChallengeMethod)\<close>; the page is represented by the six values it is formatted from.
\<close>

definition renderLoginForm ::
  "ResponseWriter \<Rightarrow> string \<Rightarrow> string \<Rightarrow> string \<Rightarrow> string \<Rightarrow> string \<Rightarrow> string
    \<Rightarrow> ResponseWriter" where
  "renderLoginForm w clientID redirectURI state scope codeChallenge codeChallengeMethod =
     w\<lparr>Header := (Header w)(''Content-Type'' \<mapsto> ''text/html''),
       status := 200,
       written := written w @
         [LoginForm clientID redirectURI state scope codeChallenge codeChallengeMethod]\<rparr>"

text \<open>\<^verbatim>\<open>AuthHandler.AuthorizeHandler(w, r)\<close>\<close>

definition AuthorizeHandler ::
  "net_http \<Rightarrow> blowfish \<Rightarrow> BcryptPasswordHasher \<Rightarrow> world \<Rightarrow> accounts \<Rightarrow> registry \<Rightarrow> ResponseWriter
    \<Rightarrow> Request \<Rightarrow> ResponseWriter go \<times> registry" where
  "AuthorizeHandler lib bf hasher wd accs codes w r =
    (if Method r \<noteq> ''GET'' \<and> Method r \<noteq> ''POST'' then
       (Return (sendError w ErrMethodNotAllowed 405), codes)
     else
       let responseType = Query_Get r ''response_type'';
           clientID = Query_Get r ''client_id'';
           redirectURI = Query_Get r ''redirect_uri'';
           state = Query_Get r ''state'';
           scope = Query_Get r ''scope'';
           codeChallenge = Query_Get r ''code_challenge'';
           codeChallengeMethod = Query_Get r ''code_challenge_method''
       in
       if responseType \<noteq> ''code'' then
         (sendAuthorizationError lib w redirectURI ''unsupported_response_type''
            ''Only 'code' response type is supported'' state, codes)
       else if clientID = [] \<or> redirectURI = [] \<or> codeChallenge = [] then
         (sendAuthorizationError lib w redirectURI ''invalid_request''
            ''client_id, redirect_uri, and code_challenge are required'' state, codes)
       else if codeChallengeMethod \<noteq> ''S256'' then
         (sendAuthorizationError lib w redirectURI ''invalid_request''
            ''code_challenge_method must be S256'' state, codes)
       else if Method r = ''GET'' then
         (Return (renderLoginForm w clientID redirectURI state scope codeChallenge
                    codeChallengeMethod), codes)
       else
         let email = FormValue r ''email'';
             password = FormValue r ''password''
         in
         if email = [] \<or> password = [] then
           (Return (renderLoginForm w clientID redirectURI state scope codeChallenge
                      codeChallengeMethod), codes)
         else
           (case CreateAuthorizationCode bf hasher wd accs codes email password clientID
                   redirectURI scope codeChallenge codeChallengeMethod of
              (Inl err, codes') \<Rightarrow>
                (Return (renderLoginForm w clientID redirectURI state scope codeChallenge
                           codeChallengeMethod), codes')
            | (Inr authCode, codes') \<Rightarrow>
                let redirectURL = redirectURI @ ''?code='' @ authCode;
                    redirectURL' = (if state \<noteq> [] then redirectURL @ ''&state='' @ state
                                    else redirectURL)
                in (http_Redirect lib w (Some r) redirectURL' 302, codes')))"

text \<open>\<^verbatim>\<open>AuthHandler.SignupHandler(w, r)\<close>\<close>

definition SignupHandler ::
  "blowfish \<Rightarrow> BcryptPasswordHasher \<Rightarrow> world \<Rightarrow> accounts \<Rightarrow> ResponseWriter \<Rightarrow> Request
    \<Rightarrow> ResponseWriter \<times> accounts" where
  "SignupHandler bf hasher wd accs w r =
    (if Method r \<noteq> ''POST'' then (sendError w ErrMethodNotAllowed 405, accs)
     else
       (case Body r of
          None \<Rightarrow> (sendError w (WithMessage ErrInvalidRequest ''Invalid JSON'') 400, accs)
        | Some req \<Rightarrow>
          if CreateAccountRequest.Email req = [] \<or> CreateAccountRequest.Password req = [] then
            (sendError w (WithMessage ErrInvalidRequest ''email and password are required'')
               400, accs)
          else
            (case CreateAccount bf hasher wd accs (CreateAccountRequest.Email req)
                    (CreateAccountRequest.Password req) (CreateAccountRequest.Name req) of
               (Inl err, accs') \<Rightarrow>
                 if strings_Contains err ''already exists'' then
                   (sendError w ErrUserExists 409, accs')
                 else (sendError w ErrInternalServerError 500, accs')
             | (Inr newAccount, accs') \<Rightarrow>
                 (sendJSON w
                    (JObject [(''account_id'', JString (ID newAccount)),
                              (''created_at'', JTime (CreatedAt newAccount)),
                              (''email'', JString (Account.Email newAccount)),
                              (''email_verified'', JBool (Verified newAccount)),
                              (''name'', JString (Account.Name newAccount))])
                    201, accs'))))"

text \<open>The JSON object of a response, and one of its members.\<close>

definition response_member :: "ResponseWriter \<Rightarrow> string \<Rightarrow> json option" where
  "response_member w k =
     (case written w of [JSONBody (JObject kvs)] \<Rightarrow> map_of kvs k | _ \<Rightarrow> None)"

text \<open>A response writer that nothing has been written to.\<close>

definition new_writer :: ResponseWriter where
  "new_writer = \<lparr>Header = Map.empty, status = 0, written = []\<rparr>"

section \<open>A worked scenario\<close>

text \<open>
  The values of the walk-through used below: the account of a user A, the PKCE pair of
  RFC 7636 (appendix B), a token service, and an authorization code issued to A by
  \<open>CreateAuthorizationCode\<close> at time 0 from 32 zero bytes of randomness.
\<close>

definition rfc_verifier :: string where
  "rfc_verifier = ''dBjftJeZ4CVP-mB92K27uhbUJU1p1r_wW1gFWFOEjXk''"

definition rfc_challenge :: string where
  "rfc_challenge = ''E9Melhoa2OwvFrEMTJguCHaoeK1t8URWbuGJSstw-cM''"

definition demo_hasher :: BcryptPasswordHasher where
  "demo_hasher = NewBcryptPasswordHasher 10"

text \<open>
  The theorems hold for every Blowfish computation. The values of the scenario need one
  to be fixed, for the stored hash of A's password; the scenario takes the first 23
  bytes of the SHA-256 of cost, salt and key material in its place. Nothing below
  depends on this choice.
\<close>

definition demo_blowfish :: blowfish where
  "demo_blowfish key c salt = take 23 (sha256_Sum256 (word_of_int c # salt @ key))"

definition demo_account :: Account where
  "demo_account =
     \<lparr>ID = ''a1'', Account.Email = ''a@x'',
      Account.Password =
        Bcrypt 10 (replicate 16 0) (demo_blowfish (bcrypt_key ''Passw0rd!'') 10 (replicate 16 0)),
      Account.Name = ''A'', Nickname = ''A'', Picture = [], CreatedAt = 0, UpdatedAt = 0,
      Verified = True, Blocked = False\<rparr>"

definition demo_accounts :: accounts where
  "demo_accounts = [''a1'' \<mapsto> demo_account]"

definition demo_world :: world where
  "demo_world = \<lparr>w_ctx = None, w_order = [''a1''], w_random = replicate 32 0,
                  w_salt = replicate 16 0, w_now = 0, w_now2 = 0\<rparr>"

definition demo_service :: JWETokenService where
  "demo_service =
     \<lparr>encryptionKey = take 32 (bytes_of ''0123456789abcdef0123456789abcdef_enc''),
      signingKey = take 32 (bytes_of ''0123456789abcdef0123456789abcdef_sig''),
      issuer = ''auth0-server'', audience = [''c1'']\<rparr>"

definition demo_env :: exchange_env where
  "demo_env = server_env demo_service demo_world demo_accounts"

definition demo_code :: string where
  "demo_code = ''AAAAAAAAAAAAAAAAAAAAAAAAAAAAAAAAAAAAAAAAAAA=''"

definition demo_record :: AuthorizationCode where
  "demo_record =
     \<lparr>AuthorizationCode.Code = demo_code, ClientID = ''c1'',
      RedirectURI = ''https://x/cb'', AuthorizationCode.Scope = ''openid'',
      AccountID = ''a1'', CodeChallenge = rfc_challenge, CodeChallengeMethod = ''S256'',
      AuthorizationCode.ExpiresAt = 10 * Minute, Used = False\<rparr>"

definition demo_codes :: registry where
  "demo_codes =
     snd (CreateAuthorizationCode demo_blowfish demo_hasher demo_world demo_accounts Map.empty ''a@x''
            ''Passw0rd!'' ''c1'' ''https://x/cb'' ''openid'' rfc_challenge ''S256'')"

text \<open>
  The exchange request of the walk-through; the registry in which the code is already
  flagged as used; the exchange seen when A's account has been deleted in the meantime;
  and the exchange seen eleven minutes after the code was issued.
\<close>

definition demo_request :: exchange_req where
  "demo_request = \<lparr>req_code = demo_code, req_clientID = ''c1'',
                    req_codeVerifier = rfc_verifier, req_redirectURI = ''https://x/cb''\<rparr>"

definition used_codes :: registry where
  "used_codes = [demo_code \<mapsto> demo_record\<lparr>Used := True\<rparr>]"

definition lost_env :: exchange_env where
  "lost_env = server_env demo_service demo_world Map.empty"

definition late_env :: exchange_env where
  "late_env = server_env demo_service (demo_world\<lparr>w_now := 11 * Minute\<rparr>) demo_accounts"

text \<open>
  An instant half a second past midnight (UTC) on 31 October 2025, and one an hour later.
\<close>

definition demo_instant :: Time where
  "demo_instant = 1761868800 * Second + 500000000"

definition demo_later :: Time where
  "demo_later = demo_instant + Hour"

text \<open>An environment whose only variable is a five-byte secret.\<close>

definition short_secret_env :: "string \<Rightarrow> string" where
  "short_secret_env k = (if k = ''JWE_SECRET'' then ''short'' else [])"

text \<open>
  A second account, created a second after A's, and the store holding both; a signup
  request for a new address, and one with a five-character password.
\<close>

definition second_account :: Account where
  "second_account =
     \<lparr>ID = ''b2'', Account.Email = ''b@x'',
      Account.Password =
        Bcrypt 10 (replicate 16 0) (demo_blowfish (bcrypt_key ''Passw0rd!'') 10 (replicate 16 0)),
      Account.Name = ''B'', Nickname = ''B'', Picture = [], CreatedAt = Second,
      UpdatedAt = Second, Verified = True, Blocked = False\<rparr>"

definition two_accounts :: accounts where
  "two_accounts = [''a1'' \<mapsto> demo_account, ''b2'' \<mapsto> second_account]"

definition signup_request :: Request where
  "signup_request =
     \<lparr>Method = ''POST'', Path = ''/dbconnections/signup'', Query = Map.empty,
      PostForm = Map.empty,
      Body = Some \<lparr>CreateAccountRequest.Email = ''n@x'',
                    CreateAccountRequest.Password = ''Passw0rd!'',
                    CreateAccountRequest.Name = ''N''\<rparr>\<rparr>"

definition short_password_request :: Request where
  "short_password_request =
     \<lparr>Method = ''POST'', Path = ''/dbconnections/signup'', Query = Map.empty,
      PostForm = Map.empty,
      Body = Some \<lparr>CreateAccountRequest.Email = ''n@x'',
                    CreateAccountRequest.Password = ''short'',
                    CreateAccountRequest.Name = ''N''\<rparr>\<rparr>"

text \<open>
  An authorization request that asks for the implicit flow and names a redirect URI,
  and the same request without a redirect URI.
\<close>

definition implicit_request :: Request where
  "implicit_request =
     \<lparr>Method = ''GET'', Path = ''/authorize'',
      Query = [''response_type'' \<mapsto> ''token'', ''client_id'' \<mapsto> ''c1'',
               ''redirect_uri'' \<mapsto> ''https://x/cb'', ''state'' \<mapsto> ''s1''],
      PostForm = Map.empty, Body = None\<rparr>"

definition implicit_request_no_uri :: Request where
  "implicit_request_no_uri =
     \<lparr>Method = ''GET'', Path = ''/authorize'',
      Query = [''response_type'' \<mapsto> ''token'', ''client_id'' \<mapsto> ''c1'',
               ''state'' \<mapsto> ''s1''],
      PostForm = Map.empty, Body = None\<rparr>"

text \<open>The world of the signup request: sixteen random bytes for the account id.\<close>

definition signup_world :: world where
  "signup_world = demo_world\<lparr>w_random := replicate 16 1, w_now := Minute, w_now2 := Minute\<rparr>"

text \<open>A password of 72 bytes, and the same password with one more byte.\<close>

definition long_password :: string where
  "long_password = replicate 72 (CHR ''a'')"

definition longer_password :: string where
  "longer_password = replicate 73 (CHR ''a'')"

section \<open>Facts about the worked scenario\<close>

lemma demo_code_value: "b64_EncodeToString True (replicate 32 0) = demo_code"
  unfolding demo_code_def by code_simp

lemma demo_issue:
  "CreateAuthorizationCode demo_blowfish demo_hasher demo_world demo_accounts Map.empty ''a@x''
     ''Passw0rd!'' ''c1'' ''https://x/cb'' ''openid'' rfc_challenge ''S256''
   = (Inr demo_code, [demo_code \<mapsto> demo_record])"
  by (simp add: CreateAuthorizationCode_def demo_world_def GetAccountByEmail_def
      InMemory_GetByEmail_def range_accounts_def List.map_filter_simps demo_accounts_def
      demo_account_def VerifyPassword_def Compare_def hashed_len_def
      bcrypt_CompareHashAndPassword_def demo_record_def demo_code_value Let_def)

lemma demo_codes_value: "demo_codes = [demo_code \<mapsto> demo_record]"
  by (simp add: demo_codes_def demo_issue)

text \<open>
  The SHA-256 and base64 functions above reproduce the example of RFC 7636, appendix B,
  and reject another verifier for the same challenge.
\<close>

lemma pkce_rfc7636: "validatePKCE rfc_challenge rfc_verifier ''S256''"
  unfolding rfc_challenge_def rfc_verifier_def by code_simp

lemma pkce_wrong: "\<not> validatePKCE rfc_challenge ''wrong'' ''S256''"
  unfolding rfc_challenge_def by code_simp

text \<open>A message of two blocks: the second example of FIPS 180-2, appendix B.\<close>

lemma sha256_two_blocks:
  "sha256_Sum256 (bytes_of ''abcdbcdecdefdefgefghfghighijhijkijkljklmklmnlmnomnopnopq'')
   = [0x24, 0x8d, 0x6a, 0x61, 0xd2, 0x06, 0x38, 0xb8, 0xe5, 0xc0, 0x26, 0x93, 0x0c, 0x3e,
      0x60, 0x39, 0xa3, 0x3c, 0xe4, 0x59, 0x64, 0xff, 0x21, 0x67, 0xf6, 0xec, 0xed, 0xd4,
      0x19, 0xdb, 0x06, 0xc1]"
  by code_simp

lemma demo_exchange_wrong:
  "ExchangeCodeForTokens demo_env demo_codes demo_code ''c1'' ''wrong'' ''https://x/cb''
     = (Inl ''PKCE validation failed'', demo_codes)"
  by (simp add: ExchangeCodeForTokens_def demo_env_def server_env_def demo_world_def
      demo_codes_value demo_record_def pkce_wrong Minute_def Second_def)

lemma demo_exchange_right:
  "succeeded (fst (ExchangeCodeForTokens demo_env demo_codes demo_code ''c1'' rfc_verifier
     ''https://x/cb''))"
  by (simp add: ExchangeCodeForTokens_def demo_env_def server_env_def demo_world_def
      demo_codes_value demo_record_def pkce_rfc7636 Minute_def Second_def
      GetAccount_def InMemory_GetByID_def demo_accounts_def GenerateTokenPair_def
      createEncryptedToken_def succeeded_def Let_def)

lemma demo_run:
  "run_exchanges demo_codes [(demo_env, demo_request), (demo_env, demo_request)]
     = [fst (ExchangeCodeForTokens demo_env demo_codes demo_code ''c1'' rfc_verifier
               ''https://x/cb''),
        Inl ''invalid authorization code'']"
  by (simp add: exchange_def demo_request_def)
     (simp add: ExchangeCodeForTokens_def demo_env_def server_env_def demo_world_def
      demo_codes_value demo_record_def pkce_rfc7636 Minute_def Second_def
      GetAccount_def InMemory_GetByID_def demo_accounts_def GenerateTokenPair_def
      createEncryptedToken_def Let_def)

section \<open>The PKCE check\<close>

text \<open>
  C3. The PKCE check accepts a challenge \<open>C\<close>, a verifier \<open>V\<close> and a method \<open>M\<close> if and
  only if \<open>M\<close> is \<^verbatim>\<open>S256\<close> and the URL-safe unpadded base64 encoding of the SHA-256 hash of
  \<open>V\<close> equals \<open>C\<close>; every other method is rejected for every input, \<^verbatim>\<open>plain\<close> among them.
\<close>

theorem validatePKCE_accepts_iff:
  "validatePKCE C V M
     = (M = ''S256'' \<and> b64_EncodeToString False (sha256_Sum256 (bytes_of V)) = C)
   \<and> \<not> validatePKCE C V ''plain''"
  by (simp add: validatePKCE_def)

section \<open>Single use of an authorization code\<close>

text \<open>An exchange of another code leaves the record of \<open>c\<close> as it is.\<close>

lemma exchange_other: "req_code (snd call) \<noteq> c \<Longrightarrow> snd (exchange codes call) c = codes c"
  by (auto simp: exchange_def ExchangeCodeForTokens_def Let_def
      split: option.splits sum.splits)

text \<open>A spent code is refused and stays spent.\<close>

lemma exchange_spent:
  "spent codes c \<Longrightarrow> req_code (snd call) = c \<Longrightarrow>
     \<not> succeeded (fst (exchange codes call)) \<and> spent (snd (exchange codes call)) c"
  by (auto simp: exchange_def ExchangeCodeForTokens_def Let_def spent_def succeeded_def
      split: option.splits sum.splits)

text \<open>A successful exchange spends its code.\<close>

lemma exchange_success_spends:
  "succeeded (fst (exchange codes call)) \<Longrightarrow>
     spent (snd (exchange codes call)) (req_code (snd call))"
  by (auto simp: exchange_def ExchangeCodeForTokens_def Let_def spent_def succeeded_def
      split: option.splits sum.splits if_splits)

lemma spent_preserved: "spent codes c \<Longrightarrow> spent (snd (exchange codes call)) c"
  by (cases "req_code (snd call) = c")
     (auto simp: exchange_spent, simp add: spent_def exchange_other)

lemma spent_no_success: "spent codes c \<Longrightarrow> successes c calls (run_exchanges codes calls) = 0"
proof (induction calls arbitrary: codes)
  case Nil
  then show ?case by (simp add: successes_def)
next
  case (Cons call calls)
  have "spent (snd (exchange codes call)) c"
    using Cons.prems by (rule spent_preserved)
  then have "successes c calls (run_exchanges (snd (exchange codes call)) calls) = 0"
    by (rule Cons.IH)
  moreover have "req_code (snd call) = c \<Longrightarrow> \<not> succeeded (fst (exchange codes call))"
    using exchange_spent[OF Cons.prems] by blast
  ultimately show ?case by (auto simp: successes_def)
qed

lemma at_most_one_success: "successes c calls (run_exchanges codes calls) \<le> 1"
proof (induction calls arbitrary: codes)
  case Nil
  then show ?case by (simp add: successes_def)
next
  case (Cons call calls)
  show ?case
  proof (cases "req_code (snd call) = c \<and> succeeded (fst (exchange codes call))")
    case True
    then have "spent (snd (exchange codes call)) c"
      using exchange_success_spends by blast
    then have "successes c calls (run_exchanges (snd (exchange codes call)) calls) = 0"
      by (rule spent_no_success)
    then show ?thesis using True by (simp add: successes_def)
  next
    case False
    then have "successes c (call # calls) (run_exchanges codes (call # calls))
        = successes c calls (run_exchanges (snd (exchange codes call)) calls)"
      by (auto simp: successes_def)
    then show ?thesis using Cons.IH by simp
  qed
qed

text \<open>
  When every check passes and the account lookup or the minting of the tokens fails,
  the exchange fails and the record stays in the registry with its flag set.
\<close>

lemma flip_then_fail:
  assumes "codes c = Some a" and "ex_ctx env = None"
    and "\<not> ex_now env > AuthorizationCode.ExpiresAt a" and "\<not> Used a"
    and "validatePKCE (CodeChallenge a) v (CodeChallengeMethod a)"
    and "\<not> succeeded (accountUseCase_GetAccount env (AccountID a)) \<or>
     (\<exists>acc. accountUseCase_GetAccount env (AccountID a) = Inr acc \<and>
        \<not> succeeded (tokenService_GenerateTokenPair env (ID acc) (Account.Email acc)
                       (Account.Name acc)))"
  shows "\<not> succeeded (fst (ExchangeCodeForTokens env codes c (ClientID a) v (RedirectURI a)))
       \<and> snd (ExchangeCodeForTokens env codes c (ClientID a) v (RedirectURI a))
           = codes(c \<mapsto> a\<lparr>Used := True\<rparr>)"
  using assms
  by (auto simp: ExchangeCodeForTokens_def Let_def succeeded_def split: sum.splits)

text \<open>
  C2. Over any sequence of exchanges served one after the other, at most one exchange of
  a given code succeeds. Once the used-flag of a code is set, no later exchange of that
  code succeeds. That includes the exchange that passes every check and sets the flag,
  after which the account lookup or the minting of the tokens fails: it fails, it leaves
  the record flagged, and no exchange that follows succeeds for the code.
\<close>

theorem code_exchanged_at_most_once:
  "successes c calls (run_exchanges codes calls) \<le> 1
   \<and> ((\<exists>a. codes c = Some a \<and> Used a) \<longrightarrow> successes c calls (run_exchanges codes calls) = 0)
   \<and> (codes c = Some a \<and> ex_ctx env = None \<and> \<not> ex_now env > AuthorizationCode.ExpiresAt a
        \<and> \<not> Used a \<and> validatePKCE (CodeChallenge a) v (CodeChallengeMethod a)
        \<and> (\<not> succeeded (accountUseCase_GetAccount env (AccountID a)) \<or>
           (\<exists>acc. accountUseCase_GetAccount env (AccountID a) = Inr acc \<and>
              \<not> succeeded (tokenService_GenerateTokenPair env (ID acc) (Account.Email acc)
                             (Account.Name acc))))
      \<longrightarrow> \<not> succeeded (fst (ExchangeCodeForTokens env codes c (ClientID a) v (RedirectURI a)))
        \<and> snd (ExchangeCodeForTokens env codes c (ClientID a) v (RedirectURI a)) c
            = Some (a\<lparr>Used := True\<rparr>)
        \<and> successes c calls
            (run_exchanges (snd (ExchangeCodeForTokens env codes c (ClientID a) v
                                   (RedirectURI a))) calls) = 0)"
proof (intro conjI impI)
  show "successes c calls (run_exchanges codes calls) \<le> 1"
    by (rule at_most_one_success)
next
  assume "\<exists>a. codes c = Some a \<and> Used a"
  then have "spent codes c" by (auto simp: spent_def)
  then show "successes c calls (run_exchanges codes calls) = 0"
    by (rule spent_no_success)
next
  assume h: "codes c = Some a \<and> ex_ctx env = None
        \<and> \<not> ex_now env > AuthorizationCode.ExpiresAt a
        \<and> \<not> Used a \<and> validatePKCE (CodeChallenge a) v (CodeChallengeMethod a)
        \<and> (\<not> succeeded (accountUseCase_GetAccount env (AccountID a)) \<or>
           (\<exists>acc. accountUseCase_GetAccount env (AccountID a) = Inr acc \<and>
              \<not> succeeded (tokenService_GenerateTokenPair env (ID acc) (Account.Email acc)
                             (Account.Name acc))))"
  then have ff:
    "\<not> succeeded (fst (ExchangeCodeForTokens env codes c (ClientID a) v (RedirectURI a)))
       \<and> snd (ExchangeCodeForTokens env codes c (ClientID a) v (RedirectURI a))
           = codes(c \<mapsto> a\<lparr>Used := True\<rparr>)"
    by (intro flip_then_fail) auto
  then show "\<not> succeeded (fst (ExchangeCodeForTokens env codes c (ClientID a) v
                                 (RedirectURI a)))"
    by simp
  from ff show "snd (ExchangeCodeForTokens env codes c (ClientID a) v (RedirectURI a)) c
      = Some (a\<lparr>Used := True\<rparr>)"
    by simp
  from ff have "spent (snd (ExchangeCodeForTokens env codes c (ClientID a) v
                              (RedirectURI a))) c"
    by (simp add: spent_def)
  then show "successes c calls
      (run_exchanges (snd (ExchangeCodeForTokens env codes c (ClientID a) v
                             (RedirectURI a))) calls) = 0"
    by (rule spent_no_success)
qed

text \<open>
  In the scenario: the code issued to A is exchanged while A's account is gone, which
  fails after the flag is set, and the two correct exchanges that follow both fail; in
  the registry where the code is flagged, both fail as well; from the fresh registry,
  exactly one of the two succeeds.
\<close>

theorem code_exchanged_at_most_once_witness:
  "(demo_codes demo_code = Some demo_record \<and> \<not> Used demo_record
      \<and> \<not> succeeded (accountUseCase_GetAccount lost_env (AccountID demo_record)))
   \<and> \<not> succeeded (fst (ExchangeCodeForTokens lost_env demo_codes demo_code ''c1''
                          rfc_verifier ''https://x/cb''))
   \<and> successes demo_code [(demo_env, demo_request), (demo_env, demo_request)]
        (run_exchanges
           (snd (ExchangeCodeForTokens lost_env demo_codes demo_code ''c1'' rfc_verifier
                   ''https://x/cb''))
           [(demo_env, demo_request), (demo_env, demo_request)]) = 0
   \<and> successes demo_code [(demo_env, demo_request), (demo_env, demo_request)]
        (run_exchanges used_codes [(demo_env, demo_request), (demo_env, demo_request)]) = 0
   \<and> successes demo_code [(demo_env, demo_request), (demo_env, demo_request)]
        (run_exchanges demo_codes [(demo_env, demo_request), (demo_env, demo_request)]) = 1"
proof -
  let ?calls = "[(demo_env, demo_request), (demo_env, demo_request)]"
  have h1: "demo_codes demo_code = Some demo_record"
    by (simp add: demo_codes_value)
  have h2: "ex_ctx lost_env = None"
    by (simp add: lost_env_def server_env_def demo_world_def)
  have h3: "\<not> ex_now lost_env > AuthorizationCode.ExpiresAt demo_record"
    by (simp add: lost_env_def server_env_def demo_world_def demo_record_def Minute_def
        Second_def)
  have h4: "\<not> Used demo_record"
    by (simp add: demo_record_def)
  have h5: "validatePKCE (CodeChallenge demo_record) rfc_verifier
              (CodeChallengeMethod demo_record)"
    by (simp add: demo_record_def pkce_rfc7636)
  have h6: "\<not> succeeded (accountUseCase_GetAccount lost_env (AccountID demo_record))"
    by (simp add: lost_env_def server_env_def demo_world_def demo_record_def GetAccount_def
        InMemory_GetByID_def succeeded_def)
  have c: "ClientID demo_record = ''c1''" "RedirectURI demo_record = ''https://x/cb''"
    by (simp_all add: demo_record_def)
  note t = code_exchanged_at_most_once[where c = demo_code and calls = ?calls
      and codes = demo_codes and a = demo_record and env = lost_env and v = rfc_verifier]
  from t h1 h2 h3 h4 h5 h6 have
    "\<not> succeeded (fst (ExchangeCodeForTokens lost_env demo_codes demo_code ''c1''
                         rfc_verifier ''https://x/cb''))
     \<and> successes demo_code ?calls
        (run_exchanges (snd (ExchangeCodeForTokens lost_env demo_codes demo_code ''c1''
                               rfc_verifier ''https://x/cb'')) ?calls) = 0"
    unfolding c by blast
  moreover have "\<exists>a. used_codes demo_code = Some a \<and> Used a"
    by (simp add: used_codes_def)
  with code_exchanged_at_most_once[where c = demo_code and calls = ?calls
      and codes = used_codes]
  have "successes demo_code ?calls (run_exchanges used_codes ?calls) = 0"
    by blast
  moreover have "successes demo_code ?calls (run_exchanges demo_codes ?calls) = 1"
    unfolding demo_run using demo_exchange_right
    by (simp add: successes_def demo_request_def succeeded_def)
  ultimately show ?thesis using h1 h4 h6 by blast
qed

section \<open>What a failed exchange does to the registry\<close>

text \<open>
  C1, as stated, fails. In the scenario the code issued to A is exchanged with the
  verifier \<^verbatim>\<open>wrong\<close>: the exchange fails on the PKCE check, the record is still in the
  registry, and the next exchange, with the right verifier, succeeds.
\<close>

theorem failed_pkce_keeps_code_counterexample:
  "fst (ExchangeCodeForTokens demo_env demo_codes demo_code ''c1'' ''wrong'' ''https://x/cb'')
     = Inl ''PKCE validation failed''
   \<and> snd (ExchangeCodeForTokens demo_env demo_codes demo_code ''c1'' ''wrong''
            ''https://x/cb'') demo_code = Some demo_record
   \<and> succeeded (fst (ExchangeCodeForTokens demo_env
        (snd (ExchangeCodeForTokens demo_env demo_codes demo_code ''c1'' ''wrong''
                ''https://x/cb''))
        demo_code ''c1'' rfc_verifier ''https://x/cb''))"
  by (simp add: demo_exchange_wrong demo_exchange_right) (simp add: demo_codes_value)

text \<open>
  C1, amended. For a code in the registry and a live context: an exchange after the
  expiry, or of a code flagged as used, fails and removes the record, and once the
  record is removed every exchange of the code fails as an invalid code; an exchange
  that fails on the client id, on the redirect URI or on the PKCE check leaves the
  registry as it was.
\<close>

theorem failed_exchange_effect_on_registry:
  "ex_ctx env = None \<and> codes code = Some a \<longrightarrow>
     (ex_now env > AuthorizationCode.ExpiresAt a \<longrightarrow>
        ExchangeCodeForTokens env codes code clientID codeVerifier redirectURI
          = (Inl ''authorization code expired'', codes(code := None)))
   \<and> (\<not> ex_now env > AuthorizationCode.ExpiresAt a \<and> Used a \<longrightarrow>
        ExchangeCodeForTokens env codes code clientID codeVerifier redirectURI
          = (Inl ''authorization code already used'', codes(code := None)))
   \<and> (\<not> ex_now env > AuthorizationCode.ExpiresAt a \<and> \<not> Used a \<and>
        (ClientID a \<noteq> clientID \<or> RedirectURI a \<noteq> redirectURI \<or>
         \<not> validatePKCE (CodeChallenge a) codeVerifier (CodeChallengeMethod a)) \<longrightarrow>
        \<not> succeeded (fst (ExchangeCodeForTokens env codes code clientID codeVerifier
                            redirectURI))
        \<and> snd (ExchangeCodeForTokens env codes code clientID codeVerifier redirectURI)
            = codes)
   \<and> ExchangeCodeForTokens env (codes(code := None)) code clientID codeVerifier redirectURI
          = (Inl ''invalid authorization code'', codes(code := None))"
  by (auto simp: ExchangeCodeForTokens_def succeeded_def)

theorem failed_exchange_effect_on_registry_witness:
  "(ex_ctx late_env = None \<and> demo_codes demo_code = Some demo_record
      \<and> ex_now late_env > AuthorizationCode.ExpiresAt demo_record)
   \<and> ExchangeCodeForTokens late_env demo_codes demo_code ''c1'' rfc_verifier ''https://x/cb''
        = (Inl ''authorization code expired'', demo_codes(demo_code := None))
   \<and> (used_codes demo_code = Some (demo_record\<lparr>Used := True\<rparr>))
   \<and> ExchangeCodeForTokens demo_env used_codes demo_code ''c1'' rfc_verifier ''https://x/cb''
        = (Inl ''authorization code already used'', used_codes(demo_code := None))
   \<and> (\<not> validatePKCE (CodeChallenge demo_record) ''wrong'' (CodeChallengeMethod demo_record))
   \<and> \<not> succeeded (fst (ExchangeCodeForTokens demo_env demo_codes demo_code ''c1'' ''wrong''
                          ''https://x/cb''))
   \<and> snd (ExchangeCodeForTokens demo_env demo_codes demo_code ''c1'' ''wrong''
            ''https://x/cb'') = demo_codes
   \<and> ExchangeCodeForTokens demo_env (demo_codes(demo_code := None)) demo_code ''c1''
        rfc_verifier ''https://x/cb''
        = (Inl ''invalid authorization code'', demo_codes(demo_code := None))"
proof -
  have l1: "ex_ctx late_env = None"
    by (simp add: late_env_def server_env_def demo_world_def)
  have l2: "demo_codes demo_code = Some demo_record"
    by (simp add: demo_codes_value)
  have l3: "ex_now late_env > AuthorizationCode.ExpiresAt demo_record"
    by (simp add: late_env_def server_env_def demo_world_def demo_record_def Minute_def
        Second_def)
  have d1: "ex_ctx demo_env = None"
    by (simp add: demo_env_def server_env_def demo_world_def)
  have d3: "\<not> ex_now demo_env > AuthorizationCode.ExpiresAt demo_record"
    by (simp add: demo_env_def server_env_def demo_world_def demo_record_def Minute_def
        Second_def)
  have u2: "used_codes demo_code = Some (demo_record\<lparr>Used := True\<rparr>)"
    by (simp add: used_codes_def)
  have p: "\<not> validatePKCE (CodeChallenge demo_record) ''wrong''
               (CodeChallengeMethod demo_record)"
    by (simp add: demo_record_def pkce_wrong)
  have n: "\<not> Used demo_record"
    by (simp add: demo_record_def)
  from failed_exchange_effect_on_registry[where env = late_env and codes = demo_codes
      and code = demo_code and a = demo_record and clientID = "''c1''"
      and codeVerifier = rfc_verifier and redirectURI = "''https://x/cb''"] l1 l2 l3
  have a1: "ExchangeCodeForTokens late_env demo_codes demo_code ''c1'' rfc_verifier
              ''https://x/cb''
        = (Inl ''authorization code expired'', demo_codes(demo_code := None))"
    by blast
  from failed_exchange_effect_on_registry[where env = demo_env and codes = used_codes
      and code = demo_code and a = "demo_record\<lparr>Used := True\<rparr>" and clientID = "''c1''"
      and codeVerifier = rfc_verifier and redirectURI = "''https://x/cb''"] d1 u2 d3
  have a2: "ExchangeCodeForTokens demo_env used_codes demo_code ''c1'' rfc_verifier
              ''https://x/cb''
        = (Inl ''authorization code already used'', used_codes(demo_code := None))"
    by simp
  from failed_exchange_effect_on_registry[where env = demo_env and codes = demo_codes
      and code = demo_code and a = demo_record and clientID = "''c1''"
      and codeVerifier = "''wrong''" and redirectURI = "''https://x/cb''"] d1 l2 d3 n p
  have a3: "\<not> succeeded (fst (ExchangeCodeForTokens demo_env demo_codes demo_code ''c1''
                                ''wrong'' ''https://x/cb''))
   \<and> snd (ExchangeCodeForTokens demo_env demo_codes demo_code ''c1'' ''wrong''
            ''https://x/cb'') = demo_codes"
    by blast
  from failed_exchange_effect_on_registry[where env = demo_env and codes = demo_codes
      and code = demo_code and a = demo_record and clientID = "''c1''"
      and codeVerifier = rfc_verifier and redirectURI = "''https://x/cb''"] d1 l2
  have a4: "ExchangeCodeForTokens demo_env (demo_codes(demo_code := None)) demo_code ''c1''
              rfc_verifier ''https://x/cb''
        = (Inl ''invalid authorization code'', demo_codes(demo_code := None))"
    by blast
  show ?thesis using l1 l2 l3 a1 u2 a2 p a3 a4 by blast
qed

section \<open>Minting and validating tokens\<close>


text \<open>Whole seconds of any instant that an \<^verbatim>\<open>int64\<close> of nanoseconds can hold pass through \<^verbatim>\<open>float64\<close> unchanged.\<close>

lemma via_float64_exact:
  assumes "\<bar>n\<bar> < 2 ^ 53"
  shows "via_float64 n = n"
proof -
  have l: "[0..<12] = 0 # [Suc 0..<12]"
    by (simp add: upt_conv_Cons)
  have "takeWhile (\<lambda>e. 2 ^ 53 \<le> \<bar>n\<bar> div 2 ^ e) [0..<12] = []"
    unfolding l using assms by simp
  then show ?thesis
    unfolding via_float64_def Let_def by (simp add: sgn_mult_abs)
qed

lemma Unix_add_hours: "Unix (t + k * Hour) = Unix t + k * 3600"
  by (simp add: Unix_def Hour_def Minute_def Second_def)

lemma Unix_bounds: "time_Unix (Unix t) \<le> t \<and> t < time_Unix (Unix t) + Second"
  unfolding time_Unix_def Unix_def Second_def by presburger

lemma scope_is_utf8: "json_string ''openid profile email'' = ''openid profile email''"
  by code_simp


text \<open>The payload of a minted token decodes into the map of its claims.\<close>

lemma raw_claims_customClaims:
  "raw_claims (JObject (customClaims c)) = Some (map_of (customClaims c))"
  by (simp add: raw_claims_def customClaims_def list_all_iff)

text \<open>What validation returns for the two tokens of a pair.\<close>

lemma access_roundtrip:
  assumes u: "utf8_ValidString userID" "utf8_ValidString email" "utf8_ValidString name"
    and r: "\<bar>Unix now\<bar> + 604800 < 2 ^ 53"
    and v: "now1 \<le> time_Unix (Unix now + 86400)" "time_Unix (Unix now) \<le> now2"
  shows "ValidateToken s None now1 now2
           (JWE (encryptionKey s) (JWS (signingKey s) (JObject (customClaims
              \<lparr>Subject = userID, Issuer = issuer s, Audience = audience s,
               Claims.ExpiresAt = now + 24 * Hour, IssuedAt = now, NotBefore = now,
               Claims.Email = email, Claims.Name = name,
               Claims.Scope = ''openid profile email''\<rparr>))))
         = Inr \<lparr>Subject = userID, Issuer = json_string (issuer s),
                 Audience = map json_string (audience s),
                 Claims.ExpiresAt = time_Unix (Unix now + 86400),
                 IssuedAt = time_Unix (Unix now), NotBefore = time_Unix (Unix now),
                 Claims.Email = email, Claims.Name = name,
                 Claims.Scope = ''openid profile email''\<rparr>"
proof -
  have e1: "via_float64 (Unix now + 86400) = Unix now + 86400"
    using r by (intro via_float64_exact) simp
  have e2: "via_float64 (Unix now) = Unix now"
    using r by (intro via_float64_exact) simp
  have h: "Unix (now + 24 * Hour) = Unix now + 86400"
    by (simp add: Unix_add_hours)
  show ?thesis
    using u v
    by (simp add: ValidateToken_def raw_claims_customClaims)
       (simp add: customClaims_def claim_string_def claim_time_def claim_audience_def
        Let_def h e1 e2 utf8_ValidString_def scope_is_utf8 comp_def)
qed


lemma refresh_roundtrip:
  assumes u: "utf8_ValidString userID" "utf8_ValidString email" "utf8_ValidString name"
    and r: "\<bar>Unix now\<bar> + 604800 < 2 ^ 53"
    and v: "now1 \<le> time_Unix (Unix now + 86400)" "time_Unix (Unix now) \<le> now2"
  shows "ValidateToken s None now1 now2
           (JWE (encryptionKey s) (JWS (signingKey s) (JObject (customClaims
              \<lparr>Subject = userID, Issuer = issuer s, Audience = audience s,
               Claims.ExpiresAt = now + 7 * 24 * Hour, IssuedAt = now, NotBefore = now,
               Claims.Email = email, Claims.Name = name, Claims.Scope = []\<rparr>))))
         = Inr \<lparr>Subject = userID, Issuer = json_string (issuer s),
                 Audience = map json_string (audience s),
                 Claims.ExpiresAt = time_Unix (Unix now + 604800),
                 IssuedAt = time_Unix (Unix now), NotBefore = time_Unix (Unix now),
                 Claims.Email = email, Claims.Name = name, Claims.Scope = []\<rparr>"
proof -
  have e1: "via_float64 (Unix now + 604800) = Unix now + 604800"
    using r by (intro via_float64_exact) simp
  have e2: "via_float64 (Unix now) = Unix now"
    using r by (intro via_float64_exact) simp
  have h: "Unix (now + 168 * Hour) = Unix now + 604800"
    using Unix_add_hours[of now 168] by simp
  have "now1 \<le> time_Unix (Unix now + 604800)"
    using v(1) by (simp add: time_Unix_def Second_def)
  then show ?thesis
    using u v
    by (simp add: ValidateToken_def raw_claims_customClaims)
       (simp add: customClaims_def claim_string_def claim_time_def claim_audience_def
        Let_def h e1 e2 utf8_ValidString_def comp_def)
qed


lemma demo_strings_utf8:
  "utf8_ValidString ''a1''" "utf8_ValidString ''a@x''" "utf8_ValidString ''A''"
  by code_simp+

lemma demo_instant_Unix: "Unix demo_instant = 1761868800"
  by (simp add: demo_instant_def Unix_def Second_def)


lemma demo_token_value:
  "GenerateTokenPair demo_service None demo_instant ''a1'' ''a@x'' name
   = Inr \<lparr>AccessToken = JWE (encryptionKey demo_service) (JWS (signingKey demo_service)
             (JObject (customClaims
               \<lparr>Subject = ''a1'', Issuer = issuer demo_service, Audience = audience demo_service,
                Claims.ExpiresAt = demo_instant + 24 * Hour, IssuedAt = demo_instant,
                NotBefore = demo_instant, Claims.Email = ''a@x'', Claims.Name = name,
                Claims.Scope = ''openid profile email''\<rparr>))),
           RefreshToken = JWE (encryptionKey demo_service) (JWS (signingKey demo_service)
             (JObject (customClaims
               \<lparr>Subject = ''a1'', Issuer = issuer demo_service, Audience = audience demo_service,
                Claims.ExpiresAt = demo_instant + 7 * 24 * Hour, IssuedAt = demo_instant,
                NotBefore = demo_instant, Claims.Email = ''a@x'', Claims.Name = name,
                Claims.Scope = []\<rparr>))),
           IDToken = [], TokenType = ''Bearer'', ExpiresIn = 86400,
           TokenPair.Scope = ''openid profile email''\<rparr>"
  by (simp add: GenerateTokenPair_def createEncryptedToken_def Let_def)

lemma invalid_byte_replaced: "json_string [CHR 0xFF] = [CHR 0xEF, CHR 0xBF, CHR 0xBD]"
  by code_simp

lemma demo_validate:
  "ValidateToken demo_service None demo_later demo_later
     (AccessToken (projr (GenerateTokenPair demo_service None demo_instant ''a1'' ''a@x'' name)))
   = Inr \<lparr>Subject = ''a1'', Issuer = ''auth0-server'', Audience = [''c1''],
           Claims.ExpiresAt = 1761955200 * Second, IssuedAt = 1761868800 * Second,
           NotBefore = 1761868800 * Second, Claims.Email = ''a@x'',
           Claims.Name = json_string name, Claims.Scope = ''openid profile email''\<rparr>"
proof -
  have e1: "via_float64 1761955200 = 1761955200" by (intro via_float64_exact) simp
  have e2: "via_float64 1761868800 = 1761868800" by (intro via_float64_exact) simp
  have u: "Unix (demo_instant + 24 * Hour) = 1761955200"
    by (simp add: Unix_add_hours demo_instant_Unix)
  have j: "json_string ''a1'' = ''a1''" "json_string ''a@x'' = ''a@x''"
    "json_string ''auth0-server'' = ''auth0-server''" "json_string ''c1'' = ''c1''"
    by code_simp+
  have l: "demo_later = 1761872400 * Second + 500000000"
    by (simp add: demo_later_def demo_instant_def Hour_def Minute_def Second_def)
  show ?thesis
    unfolding demo_token_value
    by (simp add: ValidateToken_def raw_claims_customClaims)
       (simp add: customClaims_def claim_string_def claim_time_def claim_audience_def
        Let_def u demo_instant_Unix e1 e2 j scope_is_utf8 demo_service_def l time_Unix_def
        Second_def)
qed

text \<open>
  C4, as stated, fails. The pair minted for A half a second past a whole second
  validates with an expiry that is not the issue time plus 24 hours: the claims carry
  whole seconds. And a name that is not valid UTF-8, here the single byte FF, is not
  recovered: the JSON encoding replaces the byte by U+FFFD.
\<close>

theorem minted_token_counterexample:
  "succeeded (ValidateToken demo_service None demo_later demo_later
     (AccessToken (projr (GenerateTokenPair demo_service None demo_instant ''a1'' ''a@x'' ''A''))))
   \<and> Claims.ExpiresAt (projr (ValidateToken demo_service None demo_later demo_later
       (AccessToken (projr (GenerateTokenPair demo_service None demo_instant ''a1'' ''a@x'' ''A'')))))
     \<noteq> demo_instant + 24 * Hour
   \<and> succeeded (ValidateToken demo_service None demo_later demo_later
       (AccessToken (projr (GenerateTokenPair demo_service None demo_instant ''a1'' ''a@x''
                              [CHR 0xFF]))))
   \<and> Claims.Name (projr (ValidateToken demo_service None demo_later demo_later
       (AccessToken (projr (GenerateTokenPair demo_service None demo_instant ''a1'' ''a@x''
                              [CHR 0xFF])))))
     \<noteq> [CHR 0xFF]"
  unfolding demo_validate
  by (simp add: succeeded_def invalid_byte_replaced demo_instant_def Hour_def Minute_def Second_def)

text \<open>
  C4, amended. For every subject, email and name that are valid UTF-8, for an issue
  time whose seconds fit a \<^verbatim>\<open>float64\<close>, and for a validation that reads the clock
  between the issue time and the expiry: validating the access token of a freshly
  minted pair recovers exactly that subject, email and name; its issued-at is the issue
  time cut to whole seconds and its expiry is that plus 24 hours, which is at most the
  issue time plus 24 hours and less than a second below it. The access token carries
  the scope \<^verbatim>\<open>openid profile email\<close>; the refresh token of the pair carries no scope
  claim and validates with an empty scope and an expiry of the issue time cut to whole
  seconds plus 7 days.
\<close>

theorem minted_tokens_validate:
  "utf8_ValidString userID \<and> utf8_ValidString email \<and> utf8_ValidString name
   \<and> \<bar>Unix now\<bar> + 604800 < 2 ^ 53
   \<and> now1 \<le> time_Unix (Unix now) + 24 * Hour \<and> time_Unix (Unix now) \<le> now2
   \<longrightarrow> (\<exists>tp c c'. GenerateTokenPair s None now userID email name = Inr tp
        \<and> ValidateToken s None now1 now2 (AccessToken tp) = Inr c
        \<and> Subject c = userID \<and> Claims.Email c = email \<and> Claims.Name c = name
        \<and> IssuedAt c = time_Unix (Unix now)
        \<and> Claims.ExpiresAt c = time_Unix (Unix now) + 24 * Hour
        \<and> Claims.ExpiresAt c \<le> now + 24 * Hour
        \<and> now + 24 * Hour < Claims.ExpiresAt c + Second
        \<and> Claims.Scope c = ''openid profile email''
        \<and> carried_claims (AccessToken tp) ''scope'' = Some (JString ''openid profile email'')
        \<and> carried_claims (RefreshToken tp) ''scope'' = None
        \<and> ValidateToken s None now1 now2 (RefreshToken tp) = Inr c'
        \<and> Claims.Scope c' = []
        \<and> Claims.ExpiresAt c' = time_Unix (Unix now) + 7 * 24 * Hour)"
proof (intro impI, elim conjE)
  assume u: "utf8_ValidString userID" "utf8_ValidString email" "utf8_ValidString name"
    and r: "\<bar>Unix now\<bar> + 604800 < 2 ^ 53"
    and v1: "now1 \<le> time_Unix (Unix now) + 24 * Hour" and v2: "time_Unix (Unix now) \<le> now2"
  have day: "time_Unix (Unix now + 86400) = time_Unix (Unix now) + 24 * Hour"
    by (simp add: time_Unix_def Hour_def Minute_def Second_def)
  have week: "time_Unix (Unix now + 604800) = time_Unix (Unix now) + 7 * 24 * Hour"
    by (simp add: time_Unix_def Hour_def Minute_def Second_def)
  have v1': "now1 \<le> time_Unix (Unix now + 86400)" using v1 day by simp
  note a = access_roundtrip[OF u r v1' v2, of s]
  note b = refresh_roundtrip[OF u r v1' v2, of s]
  have g: "GenerateTokenPair s None now userID email name =
      Inr \<lparr>AccessToken = JWE (encryptionKey s) (JWS (signingKey s) (JObject (customClaims
              \<lparr>Subject = userID, Issuer = issuer s, Audience = audience s,
               Claims.ExpiresAt = now + 24 * Hour, IssuedAt = now, NotBefore = now,
               Claims.Email = email, Claims.Name = name,
               Claims.Scope = ''openid profile email''\<rparr>))),
            RefreshToken = JWE (encryptionKey s) (JWS (signingKey s) (JObject (customClaims
              \<lparr>Subject = userID, Issuer = issuer s, Audience = audience s,
               Claims.ExpiresAt = now + 7 * 24 * Hour, IssuedAt = now, NotBefore = now,
               Claims.Email = email, Claims.Name = name, Claims.Scope = []\<rparr>))),
            IDToken = [], TokenType = ''Bearer'', ExpiresIn = 86400,
            TokenPair.Scope = ''openid profile email''\<rparr>"
    by (simp add: GenerateTokenPair_def createEncryptedToken_def Let_def)
  have s1: "carried_claims (JWE (encryptionKey s) (JWS (signingKey s) (JObject (customClaims
              \<lparr>Subject = userID, Issuer = issuer s, Audience = audience s,
               Claims.ExpiresAt = now + 24 * Hour, IssuedAt = now, NotBefore = now,
               Claims.Email = email, Claims.Name = name,
               Claims.Scope = ''openid profile email''\<rparr>)))) ''scope''
            = Some (JString ''openid profile email'')"
    by (simp add: carried_claims_def customClaims_def scope_is_utf8)
  have s2: "carried_claims (JWE (encryptionKey s) (JWS (signingKey s) (JObject (customClaims
              \<lparr>Subject = userID, Issuer = issuer s, Audience = audience s,
               Claims.ExpiresAt = now + 7 * 24 * Hour, IssuedAt = now, NotBefore = now,
               Claims.Email = email, Claims.Name = name, Claims.Scope = []\<rparr>)))) ''scope''
            = None"
    by (simp add: carried_claims_def customClaims_def)
  have b1: "time_Unix (Unix now) + 24 * Hour \<le> now + 24 * Hour"
    and b2: "now + 24 * Hour < time_Unix (Unix now) + 24 * Hour + Second"
    using Unix_bounds[of now] by simp_all
  show "\<exists>tp c c'. GenerateTokenPair s None now userID email name = Inr tp
        \<and> ValidateToken s None now1 now2 (AccessToken tp) = Inr c
        \<and> Subject c = userID \<and> Claims.Email c = email \<and> Claims.Name c = name
        \<and> IssuedAt c = time_Unix (Unix now)
        \<and> Claims.ExpiresAt c = time_Unix (Unix now) + 24 * Hour
        \<and> Claims.ExpiresAt c \<le> now + 24 * Hour
        \<and> now + 24 * Hour < Claims.ExpiresAt c + Second
        \<and> Claims.Scope c = ''openid profile email''
        \<and> carried_claims (AccessToken tp) ''scope'' = Some (JString ''openid profile email'')
        \<and> carried_claims (RefreshToken tp) ''scope'' = None
        \<and> ValidateToken s None now1 now2 (RefreshToken tp) = Inr c'
        \<and> Claims.Scope c' = []
        \<and> Claims.ExpiresAt c' = time_Unix (Unix now) + 7 * 24 * Hour"
    unfolding g using a b s1 s2 b1 b2 by (simp add: day week)
qed

text \<open>The pair minted for A at the instant of the scenario, validated an hour later.\<close>

theorem minted_tokens_validate_witness:
  "(utf8_ValidString ''a1'' \<and> utf8_ValidString ''a@x'' \<and> utf8_ValidString ''A''
      \<and> \<bar>Unix demo_instant\<bar> + 604800 < 2 ^ 53
      \<and> demo_later \<le> time_Unix (Unix demo_instant) + 24 * Hour
      \<and> time_Unix (Unix demo_instant) \<le> demo_later)
   \<and> succeeded (ValidateToken demo_service None demo_later demo_later
        (AccessToken (projr (GenerateTokenPair demo_service None demo_instant ''a1'' ''a@x'' ''A''))))
   \<and> Subject (projr (ValidateToken demo_service None demo_later demo_later
        (AccessToken (projr (GenerateTokenPair demo_service None demo_instant ''a1'' ''a@x'' ''A'')))))
       = ''a1''
   \<and> Claims.ExpiresAt (projr (ValidateToken demo_service None demo_later demo_later
        (AccessToken (projr (GenerateTokenPair demo_service None demo_instant ''a1'' ''a@x'' ''A'')))))
       = 1761955200 * Second
   \<and> carried_claims (RefreshToken (projr (GenerateTokenPair demo_service None demo_instant
        ''a1'' ''a@x'' ''A''))) ''scope'' = None"
proof -
  have h: "utf8_ValidString ''a1'' \<and> utf8_ValidString ''a@x'' \<and> utf8_ValidString ''A''
      \<and> \<bar>Unix demo_instant\<bar> + 604800 < 2 ^ 53
      \<and> demo_later \<le> time_Unix (Unix demo_instant) + 24 * Hour
      \<and> time_Unix (Unix demo_instant) \<le> demo_later"
    by (simp add: demo_strings_utf8 demo_instant_Unix)
       (simp add: demo_later_def demo_instant_def time_Unix_def Hour_def Minute_def Second_def)
  from minted_tokens_validate[where s = demo_service and now = demo_instant
      and userID = "''a1''" and email = "''a@x''" and name = "''A''"
      and ?now1.0 = demo_later and ?now2.0 = demo_later] h
  obtain tp c c' where
    g: "GenerateTokenPair demo_service None demo_instant ''a1'' ''a@x'' ''A'' = Inr tp"
    and v: "ValidateToken demo_service None demo_later demo_later (AccessToken tp) = Inr c"
    and s: "Subject c = ''a1''"
    and e: "Claims.ExpiresAt c = time_Unix (Unix demo_instant) + 24 * Hour"
    and r: "carried_claims (RefreshToken tp) ''scope'' = None"
    by blast
  have "time_Unix (Unix demo_instant) + 24 * Hour = 1761955200 * Second"
    by (simp add: demo_instant_Unix time_Unix_def Hour_def Minute_def Second_def)
  with g v s e r h show ?thesis by (simp add: succeeded_def)
qed


section \<open>Key derivation at startup\<close>

lemma slice_of_long:
  "32 \<le> length b \<Longrightarrow> slice_upto b 32 = Return (take 32 b)"
  by (simp add: slice_upto_def)

text \<open>The panic of a slice expression on fewer than 32 bytes.\<close>

lemma slice_of_short:
  "length b < 32 \<Longrightarrow> slice_upto b 32
     = Panic (''runtime error: slice bounds out of range [:32] with capacity ''
              @ strconv_Itoa (int (length b)))"
proof -
  have "strconv_Itoa (int 32) = ''32''" by code_simp
  then show "length b < 32 \<Longrightarrow> slice_upto b 32
     = Panic (''runtime error: slice bounds out of range [:32] with capacity ''
              @ strconv_Itoa (int (length b)))"
    by (simp add: slice_upto_def)
qed

lemma copy_into_key:
  "length src = 32 \<Longrightarrow> copy_bytes (replicate 32 0) src = src"
  by (simp add: copy_bytes_def)

text \<open>
  The constructor by the length of the secret: it panics when the secret has fewer than
  28 bytes, and otherwise returns a service whose keys are the first 32 bytes of the
  secret with each suffix.
\<close>

lemma NewJWETokenService_by_length:
  "NewJWETokenService secretKey iss aud =
     (if length secretKey < 28 then
        Panic (''runtime error: slice bounds out of range [:32] with capacity ''
               @ strconv_Itoa (int (length secretKey) + 4))
      else Return \<lparr>encryptionKey = take 32 (bytes_of (secretKey @ ''_enc'')),
                   signingKey = take 32 (bytes_of (secretKey @ ''_sig'')),
                   issuer = iss, audience = aud\<rparr>)"
proof (cases "length secretKey < 28")
  case True
  then have "length (bytes_of (secretKey @ ''_enc'')) < 32"
    and "int (length (bytes_of (secretKey @ ''_enc''))) = int (length secretKey) + 4"
    by (simp_all add: bytes_of_def)
  then show ?thesis
    using True by (simp add: NewJWETokenService_def slice_of_short Let_def del: append.simps)
next
  case False
  then have le: "32 \<le> length (bytes_of (secretKey @ ''_enc''))"
    and ls: "32 \<le> length (bytes_of (secretKey @ ''_sig''))"
    by (simp_all add: bytes_of_def)
  then show ?thesis
    using False by (simp add: NewJWETokenService_def slice_of_long copy_into_key Let_def)
qed

text \<open>
  The suffixes differ from their second byte on, and that byte is cut off when the
  secret has 31 bytes or more: both keys are then the first 32 bytes of the secret
  followed by an underscore.
\<close>

lemma long_secret_keys_coincide:
  assumes "31 \<le> length secretKey"
  shows "NewJWETokenService secretKey iss aud
     = Return \<lparr>encryptionKey = take 32 (bytes_of (secretKey @ ''_'')),
               signingKey = take 32 (bytes_of (secretKey @ ''_'')),
               issuer = iss, audience = aud\<rparr>"
proof -
  have "take 32 (bytes_of (secretKey @ ''_enc'')) = take 32 (bytes_of (secretKey @ ''_''))"
    "take 32 (bytes_of (secretKey @ ''_sig'')) = take 32 (bytes_of (secretKey @ ''_''))"
    using assms by (cases "length secretKey = 31"; simp add: bytes_of_def)+
  then show ?thesis
    using assms by (simp add: NewJWETokenService_by_length)
qed

lemma short_capacity: "strconv_Itoa (int (length ''short'') + 4) = ''9''"
  by code_simp


text \<open>
  C5. A secret that is too short is to make the construction of the token service fail
  with an error at startup, and the two keys are to be derived from distinct inputs.
  The configuration with the five-byte secret \<^verbatim>\<open>short\<close> loads without an error, and the
  constructor, which has no error result, panics on the slice expression, as it does
  for every secret of fewer than 28 bytes. From the 32-byte secret
  \<^verbatim>\<open>0123456789abcdef0123456789abcdef\<close> it derives one key twice: the 32 bytes of the
  secret, without any byte of the suffixes.
\<close>

theorem secret_length_is_unchecked:
  "succeeded (LoadConfig short_secret_env)
   \<and> JWESecret (projr (LoadConfig short_secret_env)) = ''short''
   \<and> NewJWETokenService ''short'' iss aud
       = Panic ''runtime error: slice bounds out of range [:32] with capacity 9''
   \<and> NewJWETokenService ''0123456789abcdef0123456789abcdef'' iss aud
       = Return \<lparr>encryptionKey = bytes_of ''0123456789abcdef0123456789abcdef'',
                 signingKey = bytes_of ''0123456789abcdef0123456789abcdef'',
                 issuer = iss, audience = aud\<rparr>
   \<and> NewJWETokenService secretKey iss aud =
       (if length secretKey < 28 then
          Panic (''runtime error: slice bounds out of range [:32] with capacity ''
                 @ strconv_Itoa (int (length secretKey) + 4))
        else Return \<lparr>encryptionKey = take 32 (bytes_of (secretKey @ ''_enc'')),
                     signingKey = take 32 (bytes_of (secretKey @ ''_sig'')),
                     issuer = iss, audience = aud\<rparr>)"
proof (intro conjI)
  show "succeeded (LoadConfig short_secret_env)"
    by (simp add: LoadConfig_def short_secret_env_def succeeded_def Let_def)
  show "JWESecret (projr (LoadConfig short_secret_env)) = ''short''"
    by (simp add: LoadConfig_def short_secret_env_def Let_def)
  show "NewJWETokenService ''short'' iss aud
       = Panic ''runtime error: slice bounds out of range [:32] with capacity 9''"
    using short_capacity by (simp add: NewJWETokenService_by_length)
  show "NewJWETokenService ''0123456789abcdef0123456789abcdef'' iss aud
       = Return \<lparr>encryptionKey = bytes_of ''0123456789abcdef0123456789abcdef'',
                 signingKey = bytes_of ''0123456789abcdef0123456789abcdef'',
                 issuer = iss, audience = aud\<rparr>"
    by (simp add: NewJWETokenService_by_length bytes_of_def)
  show "NewJWETokenService secretKey iss aud =
       (if length secretKey < 28 then
          Panic (''runtime error: slice bounds out of range [:32] with capacity ''
                 @ strconv_Itoa (int (length secretKey) + 4))
        else Return \<lparr>encryptionKey = take 32 (bytes_of (secretKey @ ''_enc'')),
                     signingKey = take 32 (bytes_of (secretKey @ ''_sig'')),
                     issuer = iss, audience = aud\<rparr>)"
    by (rule NewJWETokenService_by_length)
qed

text \<open>The service of the scenario is the one derived from that 32-byte secret.\<close>

lemma demo_service_derived:
  "NewJWETokenService ''0123456789abcdef0123456789abcdef'' ''auth0-server'' [''c1'']
     = Return demo_service"
  by (simp add: NewJWETokenService_by_length demo_service_def)

section \<open>Hashing and comparing passwords\<close>

text \<open>The key material starts with the password and its NUL byte.\<close>

lemma take_concat_replicate:
  "length xs \<le> n \<Longrightarrow> take (length xs) (take n (concat (replicate (Suc k) xs))) = xs"
  by simp

lemma bcrypt_key_prefix:
  assumes "length p \<le> 71"
  shows "take (Suc (length p)) (bcrypt_key p) = bytes_of p @ [0]"
proof -
  have l: "length (bytes_of p @ [0]) \<le> 72" using assms by (simp add: bytes_of_def)
  have s: "(72::nat) = Suc 71" by simp
  have "take (length (bytes_of p @ [0])) (take 72 (concat (replicate (Suc 71) (bytes_of p @ [0]))))
      = bytes_of p @ [0]"
    using l by (rule take_concat_replicate)
  moreover have "length (bytes_of p @ [0]) = Suc (length p)" by (simp add: bytes_of_def)
  ultimately show ?thesis
    unfolding bcrypt_key_def by (simp only: s)
qed

lemma unat_of_char: "unat (of_char c :: byte) = (of_char c :: nat)"
proof -
  have "(of_char c :: byte) = of_nat (of_char c :: nat)"
    by (simp add: of_nat_of_char)
  moreover have "(of_char c :: nat) < 2 ^ 8"
    using nat_of_char_less_256[of c] by simp
  ultimately show ?thesis
    by (simp add: unat_of_nat take_bit_nat_eq_self)
qed

lemma string_of_bytes_of: "string_of (bytes_of s) = s"
  by (induction s) (simp_all add: string_of_def bytes_of_def unat_of_char)

lemma bytes_of_inj: "bytes_of p = bytes_of q \<Longrightarrow> p = q"
  using string_of_bytes_of by metis

text \<open>The key material determines a password of at most 71 bytes without a NUL byte.\<close>

lemma bcrypt_key_takeWhile:
  assumes l: "length r \<le> 71" and n: "0 \<notin> set (bytes_of r)"
  shows "takeWhile (\<lambda>b. b \<noteq> 0) (bcrypt_key r) = bytes_of r"
proof -
  have "bcrypt_key r
      = take (Suc (length r)) (bcrypt_key r) @ drop (Suc (length r)) (bcrypt_key r)"
    by simp
  then have e: "bcrypt_key r = bytes_of r @ 0 # drop (Suc (length r)) (bcrypt_key r)"
    using bcrypt_key_prefix[OF l] by simp
  have "takeWhile (\<lambda>b. b \<noteq> 0) (bytes_of r @ 0 # drop (Suc (length r)) (bcrypt_key r))
      = bytes_of r"
    using n by (subst takeWhile_append2) auto
  with e show ?thesis by simp
qed

lemma bcrypt_key_inj:
  assumes "length p \<le> 71" and "length q \<le> 71"
    and "0 \<notin> set (bytes_of p)" and "0 \<notin> set (bytes_of q)"
    and "bcrypt_key p = bcrypt_key q"
  shows "p = q"
proof -
  have "bytes_of p = bytes_of q"
    using bcrypt_key_takeWhile[OF assms(1,3)] bcrypt_key_takeWhile[OF assms(2,4)] assms(5)
    by simp
  then show ?thesis by (rule bytes_of_inj)
qed

text \<open>Of a password of 72 bytes or more, only the first 72 bytes enter the key.\<close>

lemma take_first_copy:
  "n \<le> length xs \<Longrightarrow> take n (concat (replicate (Suc k) (xs @ ys))) = take n xs"
  by simp

lemma bcrypt_key_long:
  assumes "72 \<le> length p"
  shows "bcrypt_key p = take 72 (bytes_of p)"
proof -
  have s: "(72::nat) = Suc 71" by simp
  have l: "72 \<le> length (bytes_of p)" using assms by (simp add: bytes_of_def)
  have "take 72 (concat (replicate (Suc 71) (bytes_of p @ [0]))) = take 72 (bytes_of p)"
    using l by (rule take_first_copy)
  then show ?thesis
    unfolding bcrypt_key_def by (simp only: s)
qed

lemma long_keys: "bcrypt_key longer_password = bcrypt_key long_password"
  by (simp add: bcrypt_key_long longer_password_def long_password_def bytes_of_def)

lemma nul_keys: "bcrypt_key (''Passw0rd!'' @ [CHR 0x00] @ ''Passw0rd!'') = bcrypt_key ''Passw0rd!''"
  by code_simp


lemma extension_key:
  assumes "length P = 72"
  shows "bcrypt_key (P @ X) = bcrypt_key P"
proof -
  have "bcrypt_key (P @ X) = take 72 (bytes_of (P @ X))"
    using assms by (simp add: bcrypt_key_long)
  also have "\<dots> = take 72 (bytes_of P)"
    using assms by (simp add: bytes_of_def)
  also have "\<dots> = bcrypt_key P"
    using assms by (simp add: bcrypt_key_long)
  finally show ?thesis .
qed

text \<open>The values of \<open>Hash\<close> and \<open>Compare\<close>.\<close>

lemma hasher_cost: "4 \<le> cost (NewBcryptPasswordHasher c) \<and> cost (NewBcryptPasswordHasher c) \<le> 31"
  by (simp add: NewBcryptPasswordHasher_def)

lemma Hash_value:
  assumes "P \<noteq> []" and "length P \<le> 72" and "4 \<le> cost h" and "cost h \<le> 31"
  shows "Hash bf h salt P = Inr (Bcrypt (cost h) salt (bf (bcrypt_key P) (cost h) salt))"
  using assms by (simp add: Hash_def bcrypt_GenerateFromPassword_def Let_def)

lemma Compare_value:
  assumes "Q \<noteq> []" and "4 \<le> k" and "k \<le> 31"
  shows "Compare bf h (Bcrypt k salt d) Q
     = (if bf (bcrypt_key Q) k salt = d then None else Some ''invalid password'')"
  using assms by (simp add: Compare_def hashed_len_def bcrypt_CompareHashAndPassword_def)


text \<open>
  C7, as stated, fails. Whatever the Blowfish computation, the hash of a 72-byte
  password compares equal with that password followed by one more byte, and the hash
  of \<^verbatim>\<open>Passw0rd!\<close> compares equal with \<^verbatim>\<open>Passw0rd!\<close>, a NUL byte and \<^verbatim>\<open>Passw0rd!\<close> again: in
  both pairs the Blowfish key schedule reads the same 72 bytes.
\<close>

theorem different_password_accepted_counterexample:
  "\<forall>bf. longer_password \<noteq> long_password
     \<and> succeeded (Hash bf demo_hasher (replicate 16 0) long_password)
     \<and> Compare bf demo_hasher (projr (Hash bf demo_hasher (replicate 16 0) long_password))
          longer_password = None
     \<and> ''Passw0rd!'' @ [CHR 0x00] @ ''Passw0rd!'' \<noteq> ''Passw0rd!''
     \<and> succeeded (Hash bf demo_hasher (replicate 16 0) ''Passw0rd!'')
     \<and> Compare bf demo_hasher (projr (Hash bf demo_hasher (replicate 16 0) ''Passw0rd!''))
          (''Passw0rd!'' @ [CHR 0x00] @ ''Passw0rd!'') = None"
proof
  fix bf :: blowfish
  have n: "longer_password \<noteq> long_password"
    by (simp add: longer_password_def long_password_def)
  have l: "length long_password = 72" "length longer_password = 73"
    by (simp_all add: longer_password_def long_password_def)
  have q: "long_password \<noteq> []" "longer_password \<noteq> []"
    using l by auto
  have k: "cost demo_hasher = 10"
    by (simp add: demo_hasher_def NewBcryptPasswordHasher_def)
  have h1: "Hash bf demo_hasher (replicate 16 0) long_password
      = Inr (Bcrypt 10 (replicate 16 0) (bf (bcrypt_key long_password) 10 (replicate 16 0)))"
    using Hash_value[of long_password demo_hasher bf "replicate 16 0"] q l k by simp
  have h2: "Hash bf demo_hasher (replicate 16 0) ''Passw0rd!''
      = Inr (Bcrypt 10 (replicate 16 0) (bf (bcrypt_key ''Passw0rd!'') 10 (replicate 16 0)))"
    using Hash_value[of "''Passw0rd!''" demo_hasher bf "replicate 16 0"] k by simp
  have c1: "Compare bf demo_hasher
        (Bcrypt 10 (replicate 16 0) (bf (bcrypt_key long_password) 10 (replicate 16 0)))
        longer_password = None"
    using q by (simp add: Compare_value long_keys)
  have c2: "Compare bf demo_hasher
        (Bcrypt 10 (replicate 16 0) (bf (bcrypt_key ''Passw0rd!'') 10 (replicate 16 0)))
        (''Passw0rd!'' @ [CHR 0x00] @ ''Passw0rd!'') = None"
    using nul_keys Compare_value[of "''Passw0rd!'' @ [CHR 0x00] @ ''Passw0rd!''" 10 bf
        demo_hasher "replicate 16 0"] by simp
  show "longer_password \<noteq> long_password
     \<and> succeeded (Hash bf demo_hasher (replicate 16 0) long_password)
     \<and> Compare bf demo_hasher (projr (Hash bf demo_hasher (replicate 16 0) long_password))
          longer_password = None
     \<and> ''Passw0rd!'' @ [CHR 0x00] @ ''Passw0rd!'' \<noteq> ''Passw0rd!''
     \<and> succeeded (Hash bf demo_hasher (replicate 16 0) ''Passw0rd!'')
     \<and> Compare bf demo_hasher (projr (Hash bf demo_hasher (replicate 16 0) ''Passw0rd!''))
          (''Passw0rd!'' @ [CHR 0x00] @ ''Passw0rd!'') = None"
    using n c1 c2 by (simp add: h1 h2 succeeded_def)
qed


text \<open>
  C7, amended. Hashing the empty password fails with an error, and so does hashing a
  password of more than 72 bytes. For every other password \<open>P\<close>, hashing succeeds and
  comparing the hash with \<open>P\<close> succeeds. Comparing it with a password \<open>Q\<close> that is not
  empty succeeds when the Blowfish digest of the key material of \<open>Q\<close> is that of \<open>P\<close>,
  and reports a mismatch otherwise. So it succeeds for every \<open>Q\<close> with the key material
  of \<open>P\<close>, among them every \<open>Q\<close> that continues a \<open>P\<close> of 72 bytes.
\<close>

theorem hash_then_compare:
  "Hash bf (NewBcryptPasswordHasher c) salt [] = Inl ''password cannot be empty''
   \<and> (72 < length P \<longrightarrow>
        Hash bf (NewBcryptPasswordHasher c) salt P
          = Inl ''failed to hash password: bcrypt: password length exceeds 72 bytes'')
   \<and> (P \<noteq> [] \<and> length P \<le> 72 \<longrightarrow>
        (\<exists>v. Hash bf (NewBcryptPasswordHasher c) salt P = Inr v
           \<and> Compare bf (NewBcryptPasswordHasher c) v P = None
           \<and> Compare bf (NewBcryptPasswordHasher c) v []
               = Some ''password and hash cannot be empty''
           \<and> (Q \<noteq> [] \<longrightarrow>
                Compare bf (NewBcryptPasswordHasher c) v Q
                  = (if bf (bcrypt_key Q) (cost (NewBcryptPasswordHasher c)) salt
                        = bf (bcrypt_key P) (cost (NewBcryptPasswordHasher c)) salt
                     then None else Some ''invalid password''))
           \<and> (Q \<noteq> [] \<and> bcrypt_key Q = bcrypt_key P \<longrightarrow>
                Compare bf (NewBcryptPasswordHasher c) v Q = None)
           \<and> (length P = 72 \<longrightarrow> Compare bf (NewBcryptPasswordHasher c) v (P @ X) = None)))"
proof (intro conjI impI)
  show "Hash bf (NewBcryptPasswordHasher c) salt [] = Inl ''password cannot be empty''"
    by (simp add: Hash_def)
next
  assume "72 < length P"
  then show "Hash bf (NewBcryptPasswordHasher c) salt P
          = Inl ''failed to hash password: bcrypt: password length exceeds 72 bytes''"
    by (auto simp: Hash_def bcrypt_GenerateFromPassword_def)
next
  assume p: "P \<noteq> [] \<and> length P \<le> 72"
  let ?h = "NewBcryptPasswordHasher c"
  let ?v = "Bcrypt (cost ?h) salt (bf (bcrypt_key P) (cost ?h) salt)"
  note c = hasher_cost[of c]
  have h: "Hash bf ?h salt P = Inr ?v"
    using p c by (simp add: Hash_value)
  have ok: "Compare bf ?h ?v P = None"
    using p c by (simp add: Compare_value)
  have e: "Compare bf ?h ?v [] = Some ''password and hash cannot be empty''"
    by (simp add: Compare_def)
  have q: "Q \<noteq> [] \<longrightarrow> Compare bf ?h ?v Q
      = (if bf (bcrypt_key Q) (cost ?h) salt = bf (bcrypt_key P) (cost ?h) salt
         then None else Some ''invalid password'')"
    using c by (simp add: Compare_value)
  have k: "Q \<noteq> [] \<and> bcrypt_key Q = bcrypt_key P \<longrightarrow> Compare bf ?h ?v Q = None"
    using c by (simp add: Compare_value)
  have x: "length P = 72 \<longrightarrow> Compare bf ?h ?v (P @ X) = None"
    using p c by (simp add: Compare_value extension_key)
  show "\<exists>v. Hash bf ?h salt P = Inr v
           \<and> Compare bf ?h v P = None
           \<and> Compare bf ?h v [] = Some ''password and hash cannot be empty''
           \<and> (Q \<noteq> [] \<longrightarrow>
                Compare bf ?h v Q
                  = (if bf (bcrypt_key Q) (cost ?h) salt = bf (bcrypt_key P) (cost ?h) salt
                     then None else Some ''invalid password''))
           \<and> (Q \<noteq> [] \<and> bcrypt_key Q = bcrypt_key P \<longrightarrow> Compare bf ?h v Q = None)
           \<and> (length P = 72 \<longrightarrow> Compare bf ?h v (P @ X) = None)"
    using h ok e q k x by blast
qed

text \<open>
  The password of A against itself and against its repetition after a NUL byte, a
  password of 72 bytes against its continuation, and the hash of a password of 73 bytes.
\<close>

theorem hash_then_compare_witness:
  "\<forall>bf. (''Passw0rd!'' \<noteq> [] \<and> length ''Passw0rd!'' \<le> 72
        \<and> ''Passw0rd!'' @ [CHR 0x00] @ ''Passw0rd!'' \<noteq> []
        \<and> bcrypt_key (''Passw0rd!'' @ [CHR 0x00] @ ''Passw0rd!'') = bcrypt_key ''Passw0rd!'')
     \<and> succeeded (Hash bf (NewBcryptPasswordHasher 10) (replicate 16 0) ''Passw0rd!'')
     \<and> Compare bf (NewBcryptPasswordHasher 10)
          (projr (Hash bf (NewBcryptPasswordHasher 10) (replicate 16 0) ''Passw0rd!''))
          ''Passw0rd!'' = None
     \<and> Compare bf (NewBcryptPasswordHasher 10)
          (projr (Hash bf (NewBcryptPasswordHasher 10) (replicate 16 0) ''Passw0rd!''))
          (''Passw0rd!'' @ [CHR 0x00] @ ''Passw0rd!'') = None
     \<and> (long_password \<noteq> [] \<and> length long_password = 72)
     \<and> Compare bf (NewBcryptPasswordHasher 10)
          (projr (Hash bf (NewBcryptPasswordHasher 10) (replicate 16 0) long_password))
          (long_password @ ''a'') = None
     \<and> 72 < length longer_password
     \<and> Hash bf (NewBcryptPasswordHasher 10) (replicate 16 0) longer_password
          = Inl ''failed to hash password: bcrypt: password length exceeds 72 bytes''"
proof
  fix bf :: blowfish
  let ?h = "NewBcryptPasswordHasher 10"
  let ?Q = "''Passw0rd!'' @ [CHR 0x00] @ ''Passw0rd!''"
  have h: "''Passw0rd!'' \<noteq> [] \<and> length ''Passw0rd!'' \<le> 72 \<and> ?Q \<noteq> []
      \<and> bcrypt_key ?Q = bcrypt_key ''Passw0rd!''"
    using nul_keys by simp
  from hash_then_compare[where bf = bf and c = 10 and salt = "replicate 16 0"
      and P = "''Passw0rd!''" and Q = ?Q] h
  obtain v where v: "Hash bf ?h (replicate 16 0) ''Passw0rd!'' = Inr v"
    and ok: "Compare bf ?h v ''Passw0rd!'' = None"
    and nul: "Compare bf ?h v ?Q = None"
    by blast
  have l: "long_password \<noteq> [] \<and> length long_password = 72"
    by (auto simp: long_password_def)
  from hash_then_compare[where bf = bf and c = 10 and salt = "replicate 16 0"
      and P = long_password and X = "''a''"] l
  obtain u where u: "Hash bf ?h (replicate 16 0) long_password = Inr u"
    and ext: "Compare bf ?h u (long_password @ ''a'') = None"
    by auto
  have g: "72 < length longer_password" by (simp add: longer_password_def)
  with hash_then_compare[where bf = bf and c = 10 and salt = "replicate 16 0"
      and P = longer_password]
  have f: "Hash bf ?h (replicate 16 0) longer_password
      = Inl ''failed to hash password: bcrypt: password length exceeds 72 bytes''"
    by blast
  show "(''Passw0rd!'' \<noteq> [] \<and> length ''Passw0rd!'' \<le> 72 \<and> ?Q \<noteq> []
        \<and> bcrypt_key ?Q = bcrypt_key ''Passw0rd!'')
     \<and> succeeded (Hash bf ?h (replicate 16 0) ''Passw0rd!'')
     \<and> Compare bf ?h (projr (Hash bf ?h (replicate 16 0) ''Passw0rd!'')) ''Passw0rd!'' = None
     \<and> Compare bf ?h (projr (Hash bf ?h (replicate 16 0) ''Passw0rd!'')) ?Q = None
     \<and> (long_password \<noteq> [] \<and> length long_password = 72)
     \<and> Compare bf ?h (projr (Hash bf ?h (replicate 16 0) long_password))
          (long_password @ ''a'') = None
     \<and> 72 < length longer_password
     \<and> Hash bf ?h (replicate 16 0) longer_password
          = Inl ''failed to hash password: bcrypt: password length exceeds 72 bytes''"
    using h v ok nul l u ext g f by (simp add: succeeded_def)
qed

section \<open>Listing accounts\<close>


text \<open>A sum that fits 64 bits is not changed by the wrap-around.\<close>

lemma go_int_small: "- (2 ^ 63) \<le> i \<Longrightarrow> i < 2 ^ 63 \<Longrightarrow> go_int i = i"
  unfolding go_int_def by simp

text \<open>
  The limit and the offset: whatever the inputs, the use case
  returns, of the accounts in the order of the loop, those after the first
  \<open>max offset 0\<close>, and of these at most 10 when the limit is zero or negative and at
  most \<open>min limit 100\<close> otherwise; it does not panic. (The number of accounts fits a Go
  \<^verbatim>\<open>int\<close> with room for a page.)
\<close>

lemma InMemory_List_page:
  assumes o: "0 \<le> offset" and l: "0 < limit" "limit \<le> 100"
    and n: "int (length (range_accounts accs order)) + 100 < 2 ^ 63"
  shows "InMemory_List None order accs limit offset
     = Return (Inr (take (nat limit) (drop (nat offset) (range_accounts accs order))))"
proof (cases "offset > int (length (range_accounts accs order))")
  case True
  let ?n = "int (length (range_accounts accs order))"
  have g: "go_int (?n + limit) = ?n + limit"
    using l n by (intro go_int_small) linarith+
  have d: "drop (nat offset) (range_accounts accs order) = []"
    using True by simp
  show ?thesis
    using True l by (simp add: InMemory_List_def Let_def g d)
next
  case False
  let ?n = "int (length (range_accounts accs order))"
  have g: "go_int (offset + limit) = offset + limit"
    using False o l n by (intro go_int_small) linarith+
  have t: "?n < offset + limit \<Longrightarrow>
      take (nat (?n - offset)) (drop (nat offset) (range_accounts accs order))
        = take (nat limit) (drop (nat offset) (range_accounts accs order))"
    using o by simp
  show ?thesis
    using False o l t by (simp add: InMemory_List_def Let_def g)
qed

lemma ListAccounts_page:
  assumes "int (length (range_accounts accs order)) + 100 < 2 ^ 63"
  shows "ListAccounts None order accs limit offset
     = Return (Inr (take (nat (if limit \<le> 0 then 10 else min limit 100))
                      (drop (nat (max offset 0)) (range_accounts accs order))))"
proof -
  have "ListAccounts None order accs limit offset
      = InMemory_List None order accs (if limit \<le> 0 then 10 else min limit 100) (max offset 0)"
    by (simp add: ListAccounts_def Let_def min_def max_def)
  also have "\<dots> = Return (Inr (take (nat (if limit \<le> 0 then 10 else min limit 100))
                      (drop (nat (max offset 0)) (range_accounts accs order))))"
    using assms by (intro InMemory_List_page) simp_all
  finally show ?thesis .
qed


lemma two_accounts_range:
  "range_accounts two_accounts [''a1'', ''b2''] = [demo_account, second_account]"
  "range_accounts two_accounts [''b2'', ''a1''] = [second_account, demo_account]"
  by (simp_all add: range_accounts_def List.map_filter_simps two_accounts_def)


text \<open>
  C8. The account-store list operation is to return the records in a deterministic
  order, by created-at descending. The in-memory repository returns them in the order
  in which its loop visits the Go map, and does not sort: for the store that holds A's
  account and one created a second later, both orders of the two keys are orders the
  loop can take, and the list comes out in either order, in one of them the older
  account first.
\<close>

theorem list_order_is_map_order:
  "visits [''a1'', ''b2''] two_accounts \<and> visits [''b2'', ''a1''] two_accounts
   \<and> ListAccounts None [''a1'', ''b2''] two_accounts 10 0
       = Return (Inr [demo_account, second_account])
   \<and> ListAccounts None [''b2'', ''a1''] two_accounts 10 0
       = Return (Inr [second_account, demo_account])
   \<and> CreatedAt demo_account < CreatedAt second_account"
proof -
  have v: "visits [''a1'', ''b2''] two_accounts \<and> visits [''b2'', ''a1''] two_accounts"
    by (auto simp: visits_def two_accounts_def)
  have c: "CreatedAt demo_account < CreatedAt second_account"
    by (simp add: demo_account_def second_account_def Second_def)
  show ?thesis
    using v c by (simp add: ListAccounts_page two_accounts_range)
qed


section \<open>Signup\<close>

text \<open>The words that the handler looks for in an error message.\<close>

lemma contains_suffix: "strings_Contains (xs @ sub) sub"
proof (induction xs)
  case Nil
  have "\<And>s. strings_HasPrefix s s" 
  proof -
    fix s :: string show "strings_HasPrefix s s" by (induction s) simp_all
  qed
  then show ?case by (cases sub) simp_all
next
  case (Cons a xs)
  then show ?case by simp
qed

lemma messages_without_already_exists:
  "\<not> strings_Contains ''password must be at least 8 characters'' ''already exists''"
  "\<not> strings_Contains (ctx_message e) ''already exists''"
  by (cases e; simp)+


text \<open>
  A request lacking the email or the password is answered with status 400 and
  \<^verbatim>\<open>invalid_request\<close>, one for an address that the store holds with status 409 and
  \<^verbatim>\<open>account_exists\<close>.
\<close>

lemma signup_missing_field:
  "Method r = ''POST'' \<Longrightarrow> Body r = Some req \<Longrightarrow>
   CreateAccountRequest.Email req = [] \<or> CreateAccountRequest.Password req = [] \<Longrightarrow>
   SignupHandler bf hasher wd accs w r
     = (sendError w (WithMessage ErrInvalidRequest ''email and password are required'') 400,
        accs)"
  by (auto simp: SignupHandler_def)

lemma signup_duplicate_email:
  assumes "Method r = ''POST''" and "Body r = Some req"
    and "CreateAccountRequest.Email req \<noteq> []"
    and "8 \<le> length (CreateAccountRequest.Password req)"
    and "w_ctx wd = None"
    and "InMemory_GetByEmail None (w_order wd) accs (CreateAccountRequest.Email req)
          = Inr existing"
  shows "SignupHandler bf hasher wd accs w r = (sendError w ErrUserExists 409, accs)"
proof -
  have "strings_Contains ((''account with email '' @ CreateAccountRequest.Email req)
          @ '' already exists'') ''already exists''"
    using contains_suffix[of "''account with email '' @ CreateAccountRequest.Email req @ '' ''"
        "''already exists''"] by simp
  then have c: "strings_Contains (''account with email '' @ CreateAccountRequest.Email req
          @ '' already exists'') ''already exists''" by simp
  have p: "CreateAccountRequest.Password req \<noteq> []" using assms(4) by auto
  have l: "\<not> length (CreateAccountRequest.Password req) < 8" using assms(4) by simp
  have "CreateAccount bf hasher wd accs (CreateAccountRequest.Email req)
          (CreateAccountRequest.Password req) (CreateAccountRequest.Name req)
        = (Inl (''account with email '' @ CreateAccountRequest.Email req
                @ '' already exists''), accs)"
    using assms(3,5,6) p l by (simp add: CreateAccount_def)
  then show ?thesis
    using assms(1,2,3) p c by (simp add: SignupHandler_def)
qed

lemma find_none_email:
  "InMemory_GetByEmail None order accs email = Inl e \<Longrightarrow>
   List.find (\<lambda>existing. Account.Email existing = email) (range_accounts accs order) = None"
  by (auto simp: InMemory_GetByEmail_def split: option.splits)

text \<open>
  A request with an address that the store does not hold, a password of 8 to 72 bytes
  and a fresh account id is answered with status 201 and the five members of the
  account.
\<close>

lemma signup_created:
  assumes "Method r = ''POST''" and "Body r = Some req"
    and "CreateAccountRequest.Email req \<noteq> []"
    and "8 \<le> length (CreateAccountRequest.Password req)"
    and "length (CreateAccountRequest.Password req) \<le> 72"
    and "w_ctx wd = None"
    and "InMemory_GetByEmail None (w_order wd) accs (CreateAccountRequest.Email req) = Inl e"
    and "accs (hex_EncodeToString (w_random wd)) = None"
  shows "fst (SignupHandler bf (NewBcryptPasswordHasher c) wd accs w r)
     = sendJSON w
          (JObject [(''account_id'', JString (hex_EncodeToString (w_random wd))),
                    (''created_at'', JTime (w_now wd)),
                    (''email'', JString (CreateAccountRequest.Email req)),
                    (''email_verified'', JBool True),
                    (''name'', JString (CreateAccountRequest.Name req))]) 201"
proof -
  let ?h = "NewBcryptPasswordHasher c"
  let ?pw = "CreateAccountRequest.Password req"
  let ?v = "Bcrypt (cost ?h) (w_salt wd)
             (bf (bcrypt_key ?pw) (cost ?h) (w_salt wd))"
  have p: "?pw \<noteq> []" "\<not> length ?pw < 8" "\<not> 72 < length ?pw"
    using assms(4,5) by auto
  have c: "\<not> cost ?h < 4" "\<not> 31 < cost ?h"
    by (simp_all add: NewBcryptPasswordHasher_def)
  have h: "Hash bf ?h (w_salt wd) ?pw = Inr ?v"
    using p c by (simp add: Hash_def bcrypt_GenerateFromPassword_def Let_def)
  note f = find_none_email[OF assms(7)]
  have "CreateAccount bf ?h wd accs (CreateAccountRequest.Email req) ?pw
          (CreateAccountRequest.Name req)
      = (Inr \<lparr>ID = hex_EncodeToString (w_random wd),
               Account.Email = CreateAccountRequest.Email req,
               Account.Password = ?v,
               Account.Name = CreateAccountRequest.Name req,
               Nickname = CreateAccountRequest.Name req, Picture = [],
               CreatedAt = w_now wd, UpdatedAt = w_now2 wd, Verified = True,
               Blocked = False\<rparr>,
         accs(hex_EncodeToString (w_random wd) \<mapsto>
              \<lparr>ID = hex_EncodeToString (w_random wd),
               Account.Email = CreateAccountRequest.Email req,
               Account.Password = ?v,
               Account.Name = CreateAccountRequest.Name req,
               Nickname = CreateAccountRequest.Name req, Picture = [],
               CreatedAt = w_now wd, UpdatedAt = w_now2 wd, Verified = True,
               Blocked = False\<rparr>))"
    using assms(3,6,7,8) p f
    by (simp add: CreateAccount_def Generate_def h InMemory_Create_def Let_def)
  then show ?thesis
    using assms(1,2,3) p by (simp add: SignupHandler_def)
qed

text \<open>
  A password of more than 72 bytes is refused by \<^verbatim>\<open>bcrypt\<close>, and the handler answers
  with status 500.
\<close>

lemma long_password_signup:
  assumes "Method r = ''POST''" and "Body r = Some req"
    and "CreateAccountRequest.Email req \<noteq> []"
    and "72 < length (CreateAccountRequest.Password req)"
    and "w_ctx wd = None"
    and "InMemory_GetByEmail None (w_order wd) accs (CreateAccountRequest.Email req) = Inl e"
  shows "SignupHandler bf hasher wd accs w r = (sendError w ErrInternalServerError 500, accs)"
proof -
  let ?pw = "CreateAccountRequest.Password req"
  have p: "?pw \<noteq> []" "\<not> length ?pw < 8" using assms(4) by auto
  have n: "\<not> strings_Contains
      ''failed to hash password: failed to hash password: bcrypt: password length exceeds 72 bytes''
      ''already exists''"
    by simp
  have "CreateAccount bf hasher wd accs (CreateAccountRequest.Email req) ?pw
          (CreateAccountRequest.Name req)
      = (Inl ''failed to hash password: failed to hash password: bcrypt: password length exceeds 72 bytes'', accs)"
    using assms(3,4,5,6) p
    by (simp add: CreateAccount_def Generate_def Hash_def bcrypt_GenerateFromPassword_def)
  then show ?thesis
    using assms(1,2,3) p n by (simp add: SignupHandler_def)
qed

text \<open>
  C9. A signup request whose password is shorter than 8 characters is to be answered
  with status 400 and the error code \<^verbatim>\<open>invalid_request\<close>. The handler answers the
  request with the password \<^verbatim>\<open>short\<close> with status 500 and the error code
  \<^verbatim>\<open>server_error\<close>, whatever the state of the server: the use case rejects the
  password, and the handler takes every error without the words \<^verbatim>\<open>already exists\<close>
  for an internal one.
\<close>

theorem short_password_is_server_error:
  "fst (SignupHandler bf hasher wd accs new_writer short_password_request)
     = sendError new_writer ErrInternalServerError 500
   \<and> status (fst (SignupHandler bf hasher wd accs new_writer short_password_request)) = 500
   \<and> response_member (fst (SignupHandler bf hasher wd accs new_writer short_password_request))
        ''error'' = Some (JString ''server_error'')"
proof -
  have c: "fst (CreateAccount bf hasher wd accs ''n@x'' ''short'' ''N'')
      = Inl (case w_ctx wd of Some e \<Rightarrow> ctx_message e
             | None \<Rightarrow> ''password must be at least 8 characters'')"
    by (simp add: CreateAccount_def split: option.splits)
  have n: "\<not> strings_Contains (case w_ctx wd of Some e \<Rightarrow> ctx_message e
             | None \<Rightarrow> ''password must be at least 8 characters'') ''already exists''"
    using messages_without_already_exists by (cases "w_ctx wd") simp_all
  have "fst (SignupHandler bf hasher wd accs new_writer short_password_request)
     = sendError new_writer ErrInternalServerError 500"
    using c n
    by (cases "CreateAccount bf hasher wd accs ''n@x'' ''short'' ''N''")
       (auto simp: SignupHandler_def short_password_request_def)
  then show ?thesis
    by (simp add: sendError_def new_writer_def ErrInternalServerError_def response_member_def)
qed

lemma CreateAccount_success:
  assumes "CreateAccount bf hasher wd accs email password name = (Inr acc, accs')"
  shows "accs' = accs(ID acc \<mapsto> acc) \<and> Verified acc \<and> Nickname acc = name
      \<and> Account.Name acc = name \<and> Account.Email acc = email \<and> \<not> Blocked acc"
  using assms
  by (auto simp: CreateAccount_def InMemory_Create_def Let_def
      split: option.splits sum.splits if_splits prod.splits)


text \<open>
  C10. Every signup that is answered with status 201 has stored the account with the
  verified flag set and with the nickname (and the name) equal to the name of the
  request, and its response reports \<^verbatim>\<open>email_verified\<close> as true.
\<close>

theorem signup_account_is_verified:
  "SignupHandler bf hasher wd accs w r = (w', accs') \<and> written w = [] \<and> status w' = 201 \<longrightarrow>
     response_member w' ''email_verified'' = Some (JBool True)
     \<and> (\<exists>req acc. Body r = Some req
           \<and> response_member w' ''account_id'' = Some (JString (ID acc))
           \<and> accs' (ID acc) = Some acc
           \<and> Verified acc
           \<and> Nickname acc = CreateAccountRequest.Name req
           \<and> Account.Name acc = CreateAccountRequest.Name req
           \<and> Account.Email acc = CreateAccountRequest.Email req)"
proof (intro impI, elim conjE)
  assume h: "SignupHandler bf hasher wd accs w r = (w', accs')" and e: "written w = []"
    and s: "status w' = 201"
  from h s obtain req where b: "Body r = Some req"
    by (cases "Body r")
       (auto simp: SignupHandler_def sendError_def split: if_splits)
  let ?c = "CreateAccount bf hasher wd accs (CreateAccountRequest.Email req)
              (CreateAccountRequest.Password req) (CreateAccountRequest.Name req)"
  from h s b obtain acc where c: "?c = (Inr acc, accs')"
    and w: "w' = sendJSON w
                    (JObject [(''account_id'', JString (ID acc)),
                              (''created_at'', JTime (CreatedAt acc)),
                              (''email'', JString (Account.Email acc)),
                              (''email_verified'', JBool (Verified acc)),
                              (''name'', JString (Account.Name acc))]) 201"
    by (cases ?c; cases "fst ?c")
       (auto simp: SignupHandler_def sendError_def split: if_splits)
  note p = CreateAccount_success[OF c]
  have m1: "response_member w' ''email_verified'' = Some (JBool True)"
    using p e by (simp add: w sendJSON_def response_member_def)
  have m2: "response_member w' ''account_id'' = Some (JString (ID acc))"
    using e by (simp add: w sendJSON_def response_member_def)
  show "response_member w' ''email_verified'' = Some (JBool True)
     \<and> (\<exists>req acc. Body r = Some req
           \<and> response_member w' ''account_id'' = Some (JString (ID acc))
           \<and> accs' (ID acc) = Some acc
           \<and> Verified acc
           \<and> Nickname acc = CreateAccountRequest.Name req
           \<and> Account.Name acc = CreateAccountRequest.Name req
           \<and> Account.Email acc = CreateAccountRequest.Email req)"
    using b m1 m2 p by auto
qed


lemma signup_id: "hex_EncodeToString (replicate 16 1) = ''01010101010101010101010101010101''"
  by code_simp

lemma demo_signup:
  "SignupHandler demo_blowfish demo_hasher signup_world demo_accounts new_writer signup_request
   = (sendJSON new_writer
        (JObject [(''account_id'', JString ''01010101010101010101010101010101''),
                  (''created_at'', JTime Minute),
                  (''email'', JString ''n@x''),
                  (''email_verified'', JBool True),
                  (''name'', JString ''N'')]) 201,
      demo_accounts(''01010101010101010101010101010101'' \<mapsto>
        \<lparr>ID = ''01010101010101010101010101010101'', Account.Email = ''n@x'',
         Account.Password =
           Bcrypt 10 (replicate 16 0)
             (demo_blowfish (bcrypt_key ''Passw0rd!'') 10 (replicate 16 0)),
         Account.Name = ''N'', Nickname = ''N'', Picture = [], CreatedAt = Minute,
         UpdatedAt = Minute, Verified = True, Blocked = False\<rparr>))"
  by (simp add: SignupHandler_def signup_request_def CreateAccount_def signup_world_def
      demo_world_def InMemory_GetByEmail_def range_accounts_def List.map_filter_simps
      demo_accounts_def demo_account_def Generate_def signup_id Hash_def demo_hasher_def
      NewBcryptPasswordHasher_def bcrypt_GenerateFromPassword_def InMemory_Create_def Let_def)


text \<open>The signup of a new address in the scenario.\<close>

theorem signup_account_is_verified_witness:
  "(written new_writer = []
      \<and> status (fst (SignupHandler demo_blowfish demo_hasher signup_world demo_accounts new_writer
                        signup_request)) = 201)
   \<and> response_member (fst (SignupHandler demo_blowfish demo_hasher signup_world demo_accounts new_writer
        signup_request)) ''email_verified'' = Some (JBool True)"
proof -
  obtain w' accs' where
    h: "SignupHandler demo_blowfish demo_hasher signup_world demo_accounts new_writer signup_request
          = (w', accs')"
    by (cases "SignupHandler demo_blowfish demo_hasher signup_world demo_accounts new_writer signup_request")
  have e: "written new_writer = []" by (simp add: new_writer_def)
  have s: "status w' = 201" using h by (auto simp: demo_signup sendJSON_def)
  from signup_account_is_verified[where bf = demo_blowfish and hasher = demo_hasher and wd = signup_world
      and accs = demo_accounts and w = new_writer and r = signup_request and w' = w'
      and accs' = accs'] h e s
  have "response_member w' ''email_verified'' = Some (JBool True)" by blast
  then show ?thesis using e s by (simp add: h)
qed


section \<open>Rejected authorization requests\<close>

lemma redirect_with_nil_request:
  "Header w ''Content-Type'' = None \<Longrightarrow> http_Redirect lib w None url code = Panic nil_dereference"
  by (simp add: http_Redirect_def)

lemma sendAuthorizationError_panics:
  "redirectURI \<noteq> [] \<Longrightarrow> Header w ''Content-Type'' = None \<Longrightarrow>
   sendAuthorizationError lib w redirectURI errorCode errorDescription state
     = Panic nil_dereference"
  by (simp add: sendAuthorizationError_def redirect_with_nil_request Let_def)

text \<open>
  Every rejected authorization request that names a redirect URI ends in the panic, on
  a writer without a Content-Type header; the registry is not touched.
\<close>

lemma rejected_authorization_with_redirect_uri:
  assumes "Method r = ''GET'' \<or> Method r = ''POST''"
    and "Query_Get r ''redirect_uri'' \<noteq> []"
    and "Header w ''Content-Type'' = None"
    and "Query_Get r ''response_type'' \<noteq> ''code'' \<or> Query_Get r ''client_id'' = []
         \<or> Query_Get r ''code_challenge'' = []
         \<or> Query_Get r ''code_challenge_method'' \<noteq> ''S256''"
  shows "AuthorizeHandler lib bf hasher wd accs codes w r = (Panic nil_dereference, codes)"
  using assms
  by (auto simp: AuthorizeHandler_def Let_def sendAuthorizationError_panics)

text \<open>
  A request without a redirect URI is answered directly, with status 400 and the error
  code of the first check that fails.
\<close>

lemma rejected_authorization_without_redirect_uri:
  assumes "Method r = ''GET'' \<or> Method r = ''POST''"
    and "Query_Get r ''redirect_uri'' = []"
  shows "\<exists>description. AuthorizeHandler lib bf hasher wd accs codes w r
     = (Return (w\<lparr>Header := (Header w)(''Content-Type'' \<mapsto> ''application/json''),
                 status := 400,
                 written := written w @
                   [JSONBody (JObject
                      [(''error'', JString (if Query_Get r ''response_type'' \<noteq> ''code''
                                            then ''unsupported_response_type''
                                            else ''invalid_request'')),
                       (''error_description'', JString description)])]\<rparr>), codes)"
  using assms
  by (auto simp: AuthorizeHandler_def Let_def sendAuthorizationError_def)

lemma implicit_request_query:
  "Query_Get implicit_request ''response_type'' = ''token''"
  "Query_Get implicit_request ''redirect_uri'' = ''https://x/cb''"
  "Query_Get implicit_request_no_uri ''response_type'' = ''token''"
  "Query_Get implicit_request_no_uri ''redirect_uri'' = []"
  "Query_Get implicit_request_no_uri ''state'' = ''s1''"
  by (simp_all add: Query_Get_def implicit_request_def implicit_request_no_uri_def)


text \<open>
  C6. A rejected authorization request is to be answered by a redirect to its redirect
  URI with the error as query parameters, and directly with status 400 when it names
  no redirect URI. The handler makes the redirect through \<^verbatim>\<open>http.Redirect\<close> with a
  \<^verbatim>\<open>nil\<close> request: for the request of the implicit flow that names a redirect URI the
  call panics and no redirect is written; without a redirect URI the request is
  answered with status 400 and \<^verbatim>\<open>unsupported_response_type\<close>, as the claim says.
\<close>

theorem authorization_error_redirect_panics:
  "AuthorizeHandler lib bf hasher wd accs codes new_writer implicit_request
     = (Panic nil_dereference, codes)
   \<and> AuthorizeHandler lib bf hasher wd accs codes new_writer implicit_request_no_uri
     = (Return \<lparr>Header = [''Content-Type'' \<mapsto> ''application/json''], status = 400,
                written = [JSONBody (JObject
                   [(''error'', JString ''unsupported_response_type''),
                    (''error_description'',
                     JString ''Only 'code' response type is supported'')])]\<rparr>, codes)"
proof
  have "Method implicit_request = ''GET'' \<or> Method implicit_request = ''POST''"
    by (simp add: implicit_request_def)
  moreover have "Header new_writer ''Content-Type'' = None"
    by (simp add: new_writer_def)
  ultimately show "AuthorizeHandler lib bf hasher wd accs codes new_writer implicit_request
     = (Panic nil_dereference, codes)"
    by (intro rejected_authorization_with_redirect_uri) (simp_all add: implicit_request_query)
next
  have m: "Method implicit_request_no_uri = ''GET''"
    by (simp add: implicit_request_no_uri_def)
  show "AuthorizeHandler lib bf hasher wd accs codes new_writer implicit_request_no_uri
     = (Return \<lparr>Header = [''Content-Type'' \<mapsto> ''application/json''], status = 400,
                written = [JSONBody (JObject
                   [(''error'', JString ''unsupported_response_type''),
                    (''error_description'',
                     JString ''Only 'code' response type is supported'')])]\<rparr>, codes)"
    by (simp add: AuthorizeHandler_def m implicit_request_query Let_def
        sendAuthorizationError_def new_writer_def)
qed

end
